theory Spec2Isabelle
  imports Complex_Main "HOL-Library.Word" "HOL-Library.Sublist"
begin

unbundle bit_operations_syntax

section \<open>JavaScript strings and the string built-ins the encoder uses\<close>

text \<open>
  A JavaScript string is a sequence of UTF-16 code units: \<open>length\<close>, \<open>substring\<close>,
  \<open>padStart\<close> and \<open>charCodeAt\<close> all count and read code units. A string is therefore a
  list of 16-bit words, and a literal of the source is written \<open>lit ''...''\<close>.
\<close>

type_synonym jsstring = "16 word list"

definition lit :: "string \<Rightarrow> jsstring" where
  "lit s = map (\<lambda>c. of_nat (of_char c)) s"

text \<open>The digit characters of \<open>Number.prototype.toString\<close>: \<open>0-9\<close>, then \<open>a-z\<close>.\<close>

definition digitChar :: "nat \<Rightarrow> 16 word" where
  "digitChar d = (if d < 10 then of_nat (48 + d) else of_nat (87 + d))"

text \<open>
  The digits of a non-negative integer in a radix, most significant first. JavaScript
  accepts the radixes 2 to 36 only; the source uses 10 (the default) and 16.
\<close>

function digitsOf :: "nat \<Rightarrow> nat \<Rightarrow> jsstring" where
  "digitsOf radix n =
     (if radix < 2 \<or> n < radix then [digitChar n]
      else digitsOf radix (n div radix) @ [digitChar (n mod radix)])"
  by pat_completeness auto
termination
  by (relation "measure snd") auto

declare digitsOf.simps [simp del]

text \<open>\<open>x.toString(radix)\<close> for an integer-valued number \<open>x\<close>.\<close>

definition numberToString :: "nat \<Rightarrow> int \<Rightarrow> jsstring" where
  "numberToString radix x =
     (if x < 0 then lit ''-'' @ digitsOf radix (nat (- x)) else digitsOf radix (nat x))"

text \<open>
  \<open>s.padStart(targetLength, padString)\<close>: the pad string is repeated and cut to fill
  the missing characters on the left; a string that is long enough is returned as it is.
\<close>

definition padStart :: "jsstring \<Rightarrow> nat \<Rightarrow> jsstring \<Rightarrow> jsstring" where
  "padStart s targetLength padString =
     (if targetLength \<le> length s \<or> padString = [] then s
      else take (targetLength - length s)
             (concat (replicate (targetLength - length s) padString)) @ s)"

text \<open>\<open>s.substring(start, end)\<close> on non-negative indices: the arguments are swapped
  when \<open>start > end\<close> and clamped to the length of the string.\<close>

definition substring :: "jsstring \<Rightarrow> nat \<Rightarrow> nat \<Rightarrow> jsstring" where
  "substring s start end = take (max start end - min start end) (drop (min start end) s)"

text \<open>
  \<open>s.toUpperCase()\<close> on the ASCII range: \<open>a-z\<close> become \<open>A-Z\<close>, every other ASCII
  character is unchanged. The source applies it to the output of \<open>toString(16)\<close> only,
  whose characters are \<open>0-9\<close>, \<open>a-f\<close> and \<open>-\<close>.
\<close>

definition upperChar :: "16 word \<Rightarrow> 16 word" where
  "upperChar c = (if 97 \<le> c \<and> c \<le> 122 then c - 32 else c)"

definition toUpperCase :: "jsstring \<Rightarrow> jsstring" where
  "toUpperCase s = map upperChar s"

section \<open>The checksum: \<open>calculateCRC16\<close>\<close>

text \<open>
  The bitwise operators of JavaScript work on 32-bit integers, so the register \<open>crc\<close> is a
  32-bit word. The inner loop does not mask: the register is cut back to 16 bits once per
  character, after the eight shifts (\<open>crc &= 0xFFFF\<close>).
\<close>

definition crc_shift :: "32 word \<Rightarrow> 32 word" where
  "crc_shift crc =
     (if crc AND 0x8000 \<noteq> 0 then push_bit 1 crc XOR 0x1021 else push_bit 1 crc)"

text \<open>The loop \<open>for (let j = 0; j < 8; j++)\<close>, with the number of iterations left.\<close>

primrec crc_inner :: "nat \<Rightarrow> 32 word \<Rightarrow> 32 word" where
  "crc_inner 0 crc = crc"
| "crc_inner (Suc j) crc = crc_inner j (crc_shift crc)"

text \<open>The body of the loop over the characters, for the code unit \<open>c = str.charCodeAt(i)\<close>.\<close>

definition crc_char :: "32 word \<Rightarrow> 16 word \<Rightarrow> 32 word" where
  "crc_char crc c = crc_inner 8 (crc XOR push_bit 8 (ucast c)) AND 0xFFFF"

definition crc_register :: "jsstring \<Rightarrow> 32 word" where
  "crc_register str = foldl crc_char 0xFFFF str"

definition calculateCRC16 :: "jsstring \<Rightarrow> jsstring" where
  "calculateCRC16 str =
     padStart (toUpperCase (numberToString 16 (sint (crc_register str)))) 4 (lit ''0'')"

section \<open>The payload and the encoder: \<open>generateKHQRString\<close>\<close>

text \<open>
  The object \<open>khqrPayload\<close> that the request handler builds and passes to the encoder. All
  its fields are strings: \<open>amount\<close> is the result of \<open>toFixed\<close>, so that
  \<open>payload.amount.toString()\<close> is the field itself. The encoder reads six of the fields.
\<close>

record payload =
  merchantId :: jsstring
  merchantName :: jsstring
  merchantCity :: jsstring
  merchantCountry :: jsstring
  currency :: jsstring
  amount :: jsstring
  transactionId :: jsstring
  additionalData :: jsstring
  accountNumber :: jsstring

text \<open>The expression \<open>v.length.toString().padStart(2, "0")\<close>, which the source repeats
  for every computed length.\<close>

definition lengthPrefix :: "jsstring \<Rightarrow> jsstring" where
  "lengthPrefix v = padStart (numberToString 10 (int (length v))) 2 (lit ''0'')"

text \<open>\<open>supabase/functions/bakong-qr/index.ts\<close>, lines 114 to 167.\<close>

definition generateKHQRString :: "payload \<Rightarrow> jsstring" where
  "generateKHQRString payload =
     (let qrString = [];
          qrString = qrString @ lit ''000201'';
          qrString = qrString @ lit ''010212'';
          bakongId = lit ''0006bakong'';
          merchantAcct = lengthPrefix (merchantId payload) @ merchantId payload;
          merchantInfo = bakongId @ lit ''01'' @ merchantAcct;
          qrString = qrString @ lit ''29'' @ lengthPrefix merchantInfo @ merchantInfo;
          qrString = qrString @ lit ''52045411'';
          currencyCode = (if currency payload = lit ''USD'' then lit ''840'' else lit ''116'');
          qrString = qrString @ lit ''5303'' @ currencyCode;
          amountStr = amount payload;
          qrString = qrString @ lit ''54'' @ lengthPrefix amountStr @ amountStr;
          qrString = qrString @ lit ''5802KH'';
          merchantName = substring (merchantName payload) 0 25;
          qrString = qrString @ lit ''59'' @ lengthPrefix merchantName @ merchantName;
          merchantCity = substring (merchantCity payload) 0 15;
          qrString = qrString @ lit ''60'' @ lengthPrefix merchantCity @ merchantCity;
          billNumber = substring (transactionId payload) 0 25;
          additionalData = lit ''01'' @ lengthPrefix billNumber @ billNumber;
          qrString = qrString @ lit ''62'' @ lengthPrefix additionalData @ additionalData;
          qrString = qrString @ lit ''6304'';
          crc = calculateCRC16 qrString;
          qrString = qrString @ crc
      in qrString)"

section \<open>The two other copies of the encoder\<close>

text \<open>
  The repository holds two more versions of the same edge function, each with its own
  \<open>generateKHQRString\<close> and \<open>calculateCRC16\<close>. They are modelled from their own text.
\<close>

subsection \<open>\<open>part_001\<close>: fixed sub-field lengths in tag 29, sub-tag 05 in tag 62\<close>

definition crc_shift_part001 :: "32 word \<Rightarrow> 32 word" where
  "crc_shift_part001 crc =
     (if crc AND 0x8000 \<noteq> 0 then push_bit 1 crc XOR 0x1021 else push_bit 1 crc)"

primrec crc_inner_part001 :: "nat \<Rightarrow> 32 word \<Rightarrow> 32 word" where
  "crc_inner_part001 0 crc = crc"
| "crc_inner_part001 (Suc j) crc = crc_inner_part001 j (crc_shift_part001 crc)"

definition crc_char_part001 :: "32 word \<Rightarrow> 16 word \<Rightarrow> 32 word" where
  "crc_char_part001 crc c = crc_inner_part001 8 (crc XOR push_bit 8 (ucast c)) AND 0xFFFF"

definition calculateCRC16_part001 :: "jsstring \<Rightarrow> jsstring" where
  "calculateCRC16_part001 str =
     padStart (toUpperCase (numberToString 16 (sint (foldl crc_char_part001 0xFFFF str))))
       4 (lit ''0'')"

definition generateKHQRString_part001 :: "payload \<Rightarrow> jsstring" where
  "generateKHQRString_part001 payload =
     (let qrString = [];
          qrString = qrString @ lit ''000201'';
          qrString = qrString @ lit ''010212'';
          merchantInfo = lit ''0016'' @ merchantId payload
                         @ lit ''0115'' @ substring (merchantName payload) 0 15;
          qrString = qrString @ lit ''29'' @ lengthPrefix merchantInfo @ merchantInfo;
          qrString = qrString @ lit ''52045411'';
          currencyCode = (if currency payload = lit ''USD'' then lit ''840'' else lit ''116'');
          qrString = qrString @ lit ''5303'' @ currencyCode;
          amountStr = amount payload;
          qrString = qrString @ lit ''54'' @ lengthPrefix amountStr @ amountStr;
          qrString = qrString @ lit ''5802KH'';
          merchantName = substring (merchantName payload) 0 25;
          qrString = qrString @ lit ''59'' @ lengthPrefix merchantName @ merchantName;
          merchantCity = substring (merchantCity payload) 0 15;
          qrString = qrString @ lit ''60'' @ lengthPrefix merchantCity @ merchantCity;
          refNumber = substring (transactionId payload) 0 25;
          additionalData = lit ''05'' @ lengthPrefix refNumber @ refNumber;
          qrString = qrString @ lit ''62'' @ lengthPrefix additionalData @ additionalData;
          qrString = qrString @ lit ''6304'';
          crc = calculateCRC16_part001 qrString;
          qrString = qrString @ crc
      in qrString)"

subsection \<open>\<open>part_002\<close>\<close>

definition crc_shift_part002 :: "32 word \<Rightarrow> 32 word" where
  "crc_shift_part002 crc =
     (if crc AND 0x8000 \<noteq> 0 then push_bit 1 crc XOR 0x1021 else push_bit 1 crc)"

primrec crc_inner_part002 :: "nat \<Rightarrow> 32 word \<Rightarrow> 32 word" where
  "crc_inner_part002 0 crc = crc"
| "crc_inner_part002 (Suc j) crc = crc_inner_part002 j (crc_shift_part002 crc)"

definition crc_char_part002 :: "32 word \<Rightarrow> 16 word \<Rightarrow> 32 word" where
  "crc_char_part002 crc c = crc_inner_part002 8 (crc XOR push_bit 8 (ucast c)) AND 0xFFFF"

definition calculateCRC16_part002 :: "jsstring \<Rightarrow> jsstring" where
  "calculateCRC16_part002 str =
     padStart (toUpperCase (numberToString 16 (sint (foldl crc_char_part002 0xFFFF str))))
       4 (lit ''0'')"

definition generateKHQRString_part002 :: "payload \<Rightarrow> jsstring" where
  "generateKHQRString_part002 payload =
     (let qrString = [];
          qrString = qrString @ lit ''000201'';
          qrString = qrString @ lit ''010212'';
          bakongId = lit ''0006bakong'';
          merchantAcct = lengthPrefix (merchantId payload) @ merchantId payload;
          merchantInfo = bakongId @ lit ''01'' @ merchantAcct;
          qrString = qrString @ lit ''29'' @ lengthPrefix merchantInfo @ merchantInfo;
          qrString = qrString @ lit ''52045411'';
          currencyCode = (if currency payload = lit ''USD'' then lit ''840'' else lit ''116'');
          qrString = qrString @ lit ''5303'' @ currencyCode;
          amountStr = amount payload;
          qrString = qrString @ lit ''54'' @ lengthPrefix amountStr @ amountStr;
          qrString = qrString @ lit ''5802KH'';
          merchantName = substring (merchantName payload) 0 25;
          qrString = qrString @ lit ''59'' @ lengthPrefix merchantName @ merchantName;
          merchantCity = substring (merchantCity payload) 0 15;
          qrString = qrString @ lit ''60'' @ lengthPrefix merchantCity @ merchantCity;
          billNumber = substring (transactionId payload) 0 25;
          additionalData = lit ''01'' @ lengthPrefix billNumber @ billNumber;
          qrString = qrString @ lit ''62'' @ lengthPrefix additionalData @ additionalData;
          qrString = qrString @ lit ''6304'';
          crc = calculateCRC16_part002 qrString;
          qrString = qrString @ crc
      in qrString)"

section \<open>The request handler of \<open>bakong-qr/index.ts\<close>, up to the encoded string\<close>

subsection \<open>JSON values\<close>

text \<open>
  The handler reads the request body with \<open>req.json()\<close> and the configuration of the
  gateway from a JSON column, and checks no type: their fields are arbitrary JSON values,
  and a field that is absent reads as \<open>undefined\<close>. A number is an IEEE-754 double: a finite
  value (given by its exact value, zero standing for both zeros), an infinity, or NaN. An
  object is the list of its members in the order of the text; of two members with the same
  key the later one counts.
\<close>

datatype jsnumber = Finite real | PosInfinity | NegInfinity | NaN

datatype jsvalue =
    JUndefined
  | JNull
  | JBool bool
  | JNumber jsnumber
  | JString jsstring
  | JArray "jsvalue list"
  | JObject "(jsstring \<times> jsvalue) list"

text \<open>\<open>!x\<close>: the values \<open>undefined\<close>, \<open>null\<close>, \<open>false\<close>, zero, NaN and the empty string
  are falsy, every other value is truthy.\<close>

fun falsyNumber :: "jsnumber \<Rightarrow> bool" where
  "falsyNumber (Finite q) = (q = 0)"
| "falsyNumber NaN = True"
| "falsyNumber PosInfinity = False"
| "falsyNumber NegInfinity = False"

fun falsy :: "jsvalue \<Rightarrow> bool" where
  "falsy JUndefined = True"
| "falsy JNull = True"
| "falsy (JBool b) = (\<not> b)"
| "falsy (JNumber x) = falsyNumber x"
| "falsy (JString s) = (s = [])"
| "falsy (JArray xs) = False"
| "falsy (JObject kvs) = False"

text \<open>\<open>a || b\<close>.\<close>

definition orElse :: "jsvalue \<Rightarrow> jsvalue \<Rightarrow> jsvalue" where
  "orElse a b = (if falsy a then b else a)"

text \<open>
  The errors of this path: the \<open>Error\<close> the handler throws itself, with its message, and
  the \<open>TypeError\<close> the runtime throws when a method is called on a value that does not
  have it or a value cannot be converted.
\<close>

datatype error = Error string | TypeError

fun andThen :: "error + 'a \<Rightarrow> ('a \<Rightarrow> error + 'b) \<Rightarrow> error + 'b" where
  "andThen (Inl e) f = Inl e"
| "andThen (Inr x) f = f x"

subsection \<open>The built-ins of the runtime\<close>

text \<open>
  The arithmetic and the formatting of doubles (\<open>a * b\<close>, \<open>Math.round\<close>,
  \<open>Number.prototype.toFixed\<close>) depend on floating-point rounding, and so do the
  conversions of a value that is not a number to a number (\<open>toNumber\<close>) and of a value
  that is not a string to a string (\<open>toStringOf\<close>: what \<open>v.toString()\<close> returns and
  what \<open>s + v\<close> appends; for the values JSON can hold the two agree). A conversion
  answers \<open>None\<close> when it throws, and what it throws is a \<open>TypeError\<close>: on an object
  that shadows \<open>toString\<close>. The handler is modelled over any implementation of these
  built-ins.
\<close>

record runtime =
  multiply :: "jsnumber \<Rightarrow> jsnumber \<Rightarrow> jsnumber"
  mathRound :: "jsnumber \<Rightarrow> jsnumber"
  toFixed :: "jsnumber \<Rightarrow> nat \<Rightarrow> jsstring"
  toNumber :: "jsvalue \<Rightarrow> jsnumber option"
  toStringOf :: "jsvalue \<Rightarrow> jsstring option"

fun orTypeError :: "'a option \<Rightarrow> error + 'a" where
  "orTypeError None = Inl TypeError"
| "orTypeError (Some x) = Inr x"

text \<open>The operand of \<open>*\<close> as a number.\<close>

definition toNumberOf :: "runtime \<Rightarrow> jsvalue \<Rightarrow> error + jsnumber" where
  "toNumberOf rt v = (case v of JNumber x \<Rightarrow> Inr x | _ \<Rightarrow> orTypeError (toNumber rt v))"

text \<open>What \<open>s + v\<close> appends to the string \<open>s\<close>.\<close>

definition appended :: "runtime \<Rightarrow> jsvalue \<Rightarrow> error + jsstring" where
  "appended rt v = (case v of JString s \<Rightarrow> Inr s | _ \<Rightarrow> orTypeError (toStringOf rt v))"

text \<open>\<open>v.toString()\<close>: \<open>undefined\<close> and \<open>null\<close> have no properties.\<close>

definition toStringMethod :: "runtime \<Rightarrow> jsvalue \<Rightarrow> error + jsstring" where
  "toStringMethod rt v =
     (case v of
        JUndefined \<Rightarrow> Inl TypeError
      | JNull \<Rightarrow> Inl TypeError
      | JString s \<Rightarrow> Inr s
      | _ \<Rightarrow> orTypeError (toStringOf rt v))"

text \<open>\<open>v.toFixed(digits)\<close>: only a number has the method.\<close>

definition toFixedMethod :: "runtime \<Rightarrow> jsvalue \<Rightarrow> nat \<Rightarrow> error + jsstring" where
  "toFixedMethod rt v digits =
     (case v of JNumber x \<Rightarrow> Inr (toFixed rt x digits) | _ \<Rightarrow> Inl TypeError)"

text \<open>\<open>v.substring(start, end)\<close>: only a string has the method.\<close>

definition substringMethod :: "jsvalue \<Rightarrow> nat \<Rightarrow> nat \<Rightarrow> error + jsstring" where
  "substringMethod v start end =
     (case v of JString s \<Rightarrow> Inr (substring s start end) | _ \<Rightarrow> Inl TypeError)"

subsection \<open>The encoder on the payload the handler builds\<close>

text \<open>
  Line 127, \<open>payload.merchantId.length.toString().padStart(2, "0") + payload.merchantId\<close>.
  A string and an array have a \<open>length\<close>, a number and a boolean have none (and
  \<open>undefined.toString()\<close> throws), an object has the one it holds as a member.
\<close>

definition merchantAcctOf :: "runtime \<Rightarrow> jsvalue \<Rightarrow> error + jsstring" where
  "merchantAcctOf rt v =
     (case v of
        JString s \<Rightarrow> Inr (lengthPrefix s @ s)
      | JArray xs \<Rightarrow>
          andThen (appended rt v) (\<lambda>text.
            Inr (padStart (numberToString 10 (int (length xs))) 2 (lit ''0'') @ text))
      | JObject kvs \<Rightarrow>
          (case map_of (rev kvs) (lit ''length'') of
             None \<Rightarrow> Inl TypeError
           | Some l \<Rightarrow>
               andThen (toStringMethod rt l) (\<lambda>len.
               andThen (appended rt v) (\<lambda>text.
                 Inr (padStart len 2 (lit ''0'') @ text))))
      | _ \<Rightarrow> Inl TypeError)"

text \<open>
  \<open>generateKHQRString\<close> (lines 114 to 167) as the handler calls it: the fields
  \<open>merchantId\<close>, \<open>merchantName\<close>, \<open>merchantCity\<close> and \<open>currency\<close> of the payload are
  the values the configuration and the request hold, \<open>amount\<close> and \<open>transactionId\<close> are
  the strings that \<open>toFixed\<close> and \<open>substring\<close> returned.
\<close>

definition generateKHQRString_untyped ::
  "runtime \<Rightarrow> jsvalue \<Rightarrow> jsvalue \<Rightarrow> jsvalue \<Rightarrow> jsvalue \<Rightarrow> jsstring \<Rightarrow> jsstring
     \<Rightarrow> error + jsstring" where
  "generateKHQRString_untyped rt payload_merchantId payload_merchantName payload_merchantCity
       payload_currency payload_amount payload_transactionId =
     andThen (merchantAcctOf rt payload_merchantId) (\<lambda>merchantAcct.
     andThen (substringMethod payload_merchantName 0 25) (\<lambda>merchantName.
     andThen (substringMethod payload_merchantCity 0 15) (\<lambda>merchantCity.
       Inr (let qrString = [];
                qrString = qrString @ lit ''000201'';
                qrString = qrString @ lit ''010212'';
                bakongId = lit ''0006bakong'';
                merchantInfo = bakongId @ lit ''01'' @ merchantAcct;
                qrString = qrString @ lit ''29'' @ lengthPrefix merchantInfo @ merchantInfo;
                qrString = qrString @ lit ''52045411'';
                currencyCode =
                  (if payload_currency = JString (lit ''USD'') then lit ''840'' else lit ''116'');
                qrString = qrString @ lit ''5303'' @ currencyCode;
                amountStr = payload_amount;
                qrString = qrString @ lit ''54'' @ lengthPrefix amountStr @ amountStr;
                qrString = qrString @ lit ''5802KH'';
                qrString = qrString @ lit ''59'' @ lengthPrefix merchantName @ merchantName;
                qrString = qrString @ lit ''60'' @ lengthPrefix merchantCity @ merchantCity;
                billNumber = substring payload_transactionId 0 25;
                additionalData = lit ''01'' @ lengthPrefix billNumber @ billNumber;
                qrString = qrString @ lit ''62'' @ lengthPrefix additionalData @ additionalData;
                qrString = qrString @ lit ''6304'';
                crc = calculateCRC16 qrString;
                qrString = qrString @ crc
            in qrString))))"

subsection \<open>The handler\<close>

record gateway_config =
  cfg_merchantId :: jsvalue
  cfg_merchantName :: jsvalue
  cfg_merchantCity :: jsvalue
  cfg_accountNumber :: jsvalue
  cfg_currency :: jsvalue

definition USD_TO_KHR_RATE :: jsnumber where
  "USD_TO_KHR_RATE = Finite 4100"

text \<open>Lines 45 to 50: the amount, converted to riel when the gateway is configured in riel
  and the request is in dollars.\<close>

definition finalAmountOf :: "runtime \<Rightarrow> gateway_config \<Rightarrow> jsvalue \<Rightarrow> jsvalue \<Rightarrow> error + jsvalue" where
  "finalAmountOf rt config req_amount req_currency =
     (if cfg_currency config = JString (lit ''KHR'') \<and> req_currency = JString (lit ''USD'')
      then andThen (toNumberOf rt req_amount) (\<lambda>x.
             Inr (JNumber (mathRound rt (multiply rt x USD_TO_KHR_RATE))))
      else Inr req_amount)"

text \<open>
  Lines 23 to 66: the value of \<open>qrString\<close>, or the error thrown before it is computed,
  from the fields of the request body and the configuration of the gateway. The handler
  throws its own \<open>Error\<close> on \<open>!amount || !orderId\<close>; the other throws are the
  \<open>TypeError\<close>s of \<open>amount * USD_TO_KHR_RATE\<close>, \<open>finalAmount.toFixed\<close>,
  \<open>orderId.substring\<close> and of the encoder. The arguments \<open>req_amount\<close> and
  \<open>req_currency\<close> are the fields \<open>amount\<close> and \<open>currency\<close> of the request body. The
  fields \<open>merchantCountry\<close>, \<open>additionalData\<close> and \<open>accountNumber\<close> of the payload are
  not read by the encoder, and computing them throws nothing once \<open>transactionId\<close> is
  computed. The configuration is the value that lines 30 to 37 hold in \<open>config\<close>, field by
  field: the member of the stored object, or \<open>undefined\<close> when the object lacks it, when
  no row is found or when the lookup fails (\<open>config\<close> is then \<open>{}\<close>). A run in which
  the database client cannot be created at all is outside this model.
\<close>

definition serve_qrString ::
  "runtime \<Rightarrow> gateway_config \<Rightarrow> jsvalue \<Rightarrow> jsvalue \<Rightarrow> jsvalue \<Rightarrow> jsvalue
     \<Rightarrow> error + jsstring" where
  "serve_qrString rt config req_amount req_currency orderId description =
     (if falsy req_amount \<or> falsy orderId
      then Inl (Error ''Missing required fields: amount, orderId'')
      else
        (let merchantId = orElse (cfg_merchantId config) (JString (lit ''merchant@bakong''));
             merchantName = orElse (cfg_merchantName config) (JString (lit ''GameHost''));
             merchantCity = orElse (cfg_merchantCity config) (JString (lit ''Phnom Penh''));
             finalCurrency =
               orElse req_currency (orElse (cfg_currency config) (JString (lit ''USD'')))
         in andThen (finalAmountOf rt config req_amount req_currency) (\<lambda>finalAmount.
            andThen (toFixedMethod rt finalAmount
                       (if cfg_currency config = JString (lit ''KHR'') then 0 else 2))
              (\<lambda>amountStr.
            andThen (substringMethod orderId 0 25) (\<lambda>transactionId.
              generateKHQRString_untyped rt merchantId merchantName merchantCity
                (orElse (cfg_currency config) finalCurrency) amountStr transactionId)))))"

text \<open>
  Line 21, \<open>const { amount, currency, orderId, invoiceId, description, userId } = await
  req.json()\<close>, on the value the body parses to: \<open>null\<close> cannot be destructured (and
  neither can \<open>undefined\<close>); an object gives the member of that name, the later one of
  two, or \<open>undefined\<close> when it has none; a string, a number, a boolean and an array have
  no property of these names. A body that is not JSON makes \<open>req.json()\<close> fail before
  anything is read.
\<close>

fun propertyOf :: "jsvalue \<Rightarrow> jsstring \<Rightarrow> jsvalue" where
  "propertyOf (JObject kvs) key = (case map_of (rev kvs) key of None \<Rightarrow> JUndefined | Some v \<Rightarrow> v)"
| "propertyOf v key = JUndefined"

definition serve_body :: "runtime \<Rightarrow> gateway_config \<Rightarrow> jsvalue \<Rightarrow> error + jsstring" where
  "serve_body rt config body =
     (if body = JUndefined \<or> body = JNull then Inl TypeError
      else serve_qrString rt config (propertyOf body (lit ''amount''))
             (propertyOf body (lit ''currency'')) (propertyOf body (lit ''orderId''))
             (propertyOf body (lit ''description'')))"

text \<open>A configuration whose merchant id, name and city are strings, or falsy and replaced
  by the defaults.\<close>

fun stringOrFalsy :: "jsvalue \<Rightarrow> bool" where
  "stringOrFalsy (JString s) = True"
| "stringOrFalsy v = falsy v"

definition merchantConfigured :: "gateway_config \<Rightarrow> bool" where
  "merchantConfigured config =
     (stringOrFalsy (cfg_merchantId config) \<and> stringOrFalsy (cfg_merchantName config)
      \<and> stringOrFalsy (cfg_merchantCity config))"

text \<open>
  The payload object of lines 53 to 63 for a request whose amount is a number and whose
  order id is a string, read as strings: a field that holds another value reads as the
  empty string.
\<close>

fun textOf :: "jsvalue \<Rightarrow> jsstring" where
  "textOf (JString s) = s"
| "textOf v = []"

definition khqrPayload ::
  "runtime \<Rightarrow> gateway_config \<Rightarrow> jsnumber \<Rightarrow> jsvalue \<Rightarrow> jsstring \<Rightarrow> jsvalue \<Rightarrow> payload" where
  "khqrPayload rt config req_amount req_currency orderId description =
     (let finalCurrency =
            orElse req_currency (orElse (cfg_currency config) (JString (lit ''USD'')));
          finalAmount =
            (if cfg_currency config = JString (lit ''KHR'') \<and> req_currency = JString (lit ''USD'')
             then mathRound rt (multiply rt req_amount USD_TO_KHR_RATE) else req_amount)
      in \<lparr> merchantId =
             textOf (orElse (cfg_merchantId config) (JString (lit ''merchant@bakong''))),
           merchantName = textOf (orElse (cfg_merchantName config) (JString (lit ''GameHost''))),
           merchantCity = textOf (orElse (cfg_merchantCity config) (JString (lit ''Phnom Penh''))),
           merchantCountry = lit ''KH'',
           currency = textOf (orElse (cfg_currency config) finalCurrency),
           amount = toFixed rt finalAmount
                      (if cfg_currency config = JString (lit ''KHR'') then 0 else 2),
           transactionId = substring orderId 0 25,
           additionalData =
             textOf (orElse description (JString (lit ''Order '' @ substring orderId 0 20))),
           accountNumber = textOf (orElse (cfg_accountNumber config) (JString [])) \<rparr>)"

subsection \<open>The built-ins in exact arithmetic\<close>

text \<open>
  An implementation of the built-ins that computes on the exact values. The number
  built-ins agree with the runtime wherever no floating-point rounding takes place: when
  the product is representable as a double and the magnitude to format is below \<open>10^21\<close>
  (from there on the runtime's \<open>toFixed\<close> switches to exponent notation). \<open>toFixed\<close>
  follows the steps of ECMAScript: the integer \<open>n\<close> closest to \<open>x * 10^f\<close>, the larger
  one on a tie, written with \<open>f\<close> digits after the point. The conversions cover the
  values built from strings, booleans, \<open>null\<close>, integers below \<open>10^21\<close>, arrays and
  objects, and the strings of decimal digits; a number with a fraction is written with its
  integer part only, and any other string converts to NaN. The implementation serves to run
  the handler on concrete requests.
\<close>

fun exactTimes :: "jsnumber \<Rightarrow> jsnumber \<Rightarrow> jsnumber" where
  "exactTimes (Finite a) (Finite b) = Finite (a * b)"
| "exactTimes NaN _ = NaN"
| "exactTimes _ NaN = NaN"
| "exactTimes (Finite a) PosInfinity =
     (if a = 0 then NaN else if 0 < a then PosInfinity else NegInfinity)"
| "exactTimes (Finite a) NegInfinity =
     (if a = 0 then NaN else if 0 < a then NegInfinity else PosInfinity)"
| "exactTimes PosInfinity (Finite b) =
     (if b = 0 then NaN else if 0 < b then PosInfinity else NegInfinity)"
| "exactTimes NegInfinity (Finite b) =
     (if b = 0 then NaN else if 0 < b then NegInfinity else PosInfinity)"
| "exactTimes PosInfinity PosInfinity = PosInfinity"
| "exactTimes PosInfinity NegInfinity = NegInfinity"
| "exactTimes NegInfinity PosInfinity = NegInfinity"
| "exactTimes NegInfinity NegInfinity = PosInfinity"

fun exactRound :: "jsnumber \<Rightarrow> jsnumber" where
  "exactRound (Finite q) = Finite (of_int \<lfloor>q + 1 / 2\<rfloor>)"
| "exactRound x = x"

definition fixedDigits :: "nat \<Rightarrow> nat \<Rightarrow> jsstring" where
  "fixedDigits n f =
     (if f = 0 then digitsOf 10 n
      else (let m = padStart (digitsOf 10 n) (f + 1) (lit ''0'')
            in take (length m - f) m @ lit ''.'' @ drop (length m - f) m))"

fun exactToFixed :: "jsnumber \<Rightarrow> nat \<Rightarrow> jsstring" where
  "exactToFixed NaN f = lit ''NaN''"
| "exactToFixed PosInfinity f = lit ''Infinity''"
| "exactToFixed NegInfinity f = lit ''-Infinity''"
| "exactToFixed (Finite q) f =
     (if q < 0 then lit ''-'' @ fixedDigits (nat \<lfloor>- q * 10 ^ f + 1 / 2\<rfloor>) f
      else fixedDigits (nat \<lfloor>q * 10 ^ f + 1 / 2\<rfloor>) f)"

fun exactNumberToString :: "jsnumber \<Rightarrow> jsstring" where
  "exactNumberToString NaN = lit ''NaN''"
| "exactNumberToString PosInfinity = lit ''Infinity''"
| "exactNumberToString NegInfinity = lit ''-Infinity''"
| "exactNumberToString (Finite q) =
     (if q \<le> - 1 then lit ''-'' @ digitsOf 10 (nat \<lfloor>- q\<rfloor>) else digitsOf 10 (nat \<lfloor>q\<rfloor>))"

text \<open>The string of a value, the elements of an array joined by commas: \<open>null\<close> and
  \<open>undefined\<close> are empty as elements.\<close>

fun exactToString :: "jsvalue \<Rightarrow> jsstring option"
  and joinElements :: "jsvalue list \<Rightarrow> jsstring option" where
  "exactToString JUndefined = Some (lit ''undefined'')"
| "exactToString JNull = Some (lit ''null'')"
| "exactToString (JBool b) = Some (if b then lit ''true'' else lit ''false'')"
| "exactToString (JNumber x) = Some (exactNumberToString x)"
| "exactToString (JString s) = Some s"
| "exactToString (JArray xs) = joinElements xs"
| "exactToString (JObject kvs) =
     (if lit ''toString'' \<in> set (map fst kvs) then None
      else Some (lit ''[object Object]''))"
| "joinElements [] = Some []"
| "joinElements (x # xs) =
     (case (if x = JNull \<or> x = JUndefined then Some [] else exactToString x) of
        None \<Rightarrow> None
      | Some a \<Rightarrow>
          if xs = [] then Some a
          else (case joinElements xs of None \<Rightarrow> None | Some b \<Rightarrow> Some (a @ lit '','' @ b)))"

definition digitsValue :: "jsstring \<Rightarrow> nat" where
  "digitsValue s = foldl (\<lambda>n c. 10 * n + (unat c - 48)) 0 s"

definition exactStringToNumber :: "jsstring \<Rightarrow> jsnumber" where
  "exactStringToNumber s =
     (if list_all (\<lambda>c. 48 \<le> c \<and> c \<le> 57) s then Finite (real (digitsValue s)) else NaN)"

fun exactToNumber :: "jsvalue \<Rightarrow> jsnumber option" where
  "exactToNumber JUndefined = Some NaN"
| "exactToNumber JNull = Some (Finite 0)"
| "exactToNumber (JBool b) = Some (Finite (if b then 1 else 0))"
| "exactToNumber (JNumber x) = Some x"
| "exactToNumber (JString s) = Some (exactStringToNumber s)"
| "exactToNumber v = map_option exactStringToNumber (exactToString v)"

definition exact_runtime :: runtime where
  "exact_runtime =
     \<lparr> multiply = exactTimes, mathRound = exactRound, toFixed = exactToFixed,
       toNumber = exactToNumber, toStringOf = exactToString \<rparr>"

section \<open>Reference definitions from the specification\<close>

subsection \<open>CRC16-CCITT-FALSE\<close>

text \<open>
  The algorithm as the specification words it, on a natural-number register: start from
  \<open>0xFFFF\<close>; for each character XOR its code unit, shifted left by 8 bits, into the
  register; then eight times shift left by one, XOR with \<open>0x1021\<close> when the high bit (bit
  15) was set, and mask to 16 bits after every shift; at the end write the register as four
  uppercase hexadecimal digits.
\<close>

definition ref_shift :: "nat \<Rightarrow> nat" where
  "ref_shift r = (if bit r 15 then push_bit 1 r XOR 0x1021 else push_bit 1 r) AND 0xFFFF"

definition ref_char :: "nat \<Rightarrow> 16 word \<Rightarrow> nat" where
  "ref_char r c = (ref_shift ^^ 8) (r XOR push_bit 8 (unat c))"

definition crc16_ccitt_false :: "jsstring \<Rightarrow> nat" where
  "crc16_ccitt_false s = foldl ref_char 0xFFFF s"

definition hexDigitUpper :: "nat \<Rightarrow> 16 word" where
  "hexDigitUpper d = lit ''0123456789ABCDEF'' ! d"

definition hex4 :: "nat \<Rightarrow> jsstring" where
  "hex4 r = [hexDigitUpper (r div 4096 mod 16), hexDigitUpper (r div 256 mod 16),
             hexDigitUpper (r div 16 mod 16), hexDigitUpper (r mod 16)]"

definition crc16_reference :: "jsstring \<Rightarrow> jsstring" where
  "crc16_reference s = hex4 (crc16_ccitt_false s)"

subsection \<open>Tag-length-value fields and their sequential parser\<close>

text \<open>
  A field is a triple of a 2-character tag, a 2-character length and a value. The parser
  reads a string as the specification says: tag(2), length(2), then as many characters of
  value as the length says, again and again until the string is used up. It fails
  (\<open>None\<close>) when the length is not two decimal digits, when fewer characters are left
  than the length announces, or when one to three characters are left over.
\<close>

type_synonym tlv = "jsstring \<times> jsstring \<times> jsstring"

definition isDigit :: "16 word \<Rightarrow> bool" where
  "isDigit c = (48 \<le> c \<and> c \<le> 57)"

fun decimal2 :: "jsstring \<Rightarrow> nat option" where
  "decimal2 [a, b] =
     (if isDigit a \<and> isDigit b then Some (10 * (unat a - 48) + (unat b - 48)) else None)"
| "decimal2 _ = None"

function parseTLV :: "jsstring \<Rightarrow> tlv list option" where
  "parseTLV s =
     (if s = [] then Some []
      else if length s < 4 then None
      else (case decimal2 (take 2 (drop 2 s)) of
              None \<Rightarrow> None
            | Some n \<Rightarrow>
                if length s < 4 + n then None
                else map_option ((#) (take 2 s, take 2 (drop 2 s), take n (drop 4 s)))
                       (parseTLV (drop (4 + n) s))))"
  by pat_completeness auto
termination
  by (relation "measure length") auto

declare parseTLV.simps [simp del]

definition tagValues :: "tlv list \<Rightarrow> (jsstring \<times> jsstring) list" where
  "tagValues fs = map (\<lambda>(t, l, v). (t, v)) fs"

text \<open>The field with tag \<open>t\<close> and value \<open>v\<close>, and its text. The length is the decimal
  character count of the value, left-padded with \<open>0\<close> to two characters.\<close>

definition field :: "jsstring \<Rightarrow> jsstring \<Rightarrow> tlv" where
  "field t v = (t, padStart (numberToString 10 (int (length v))) 2 (lit ''0''), v)"

fun emit :: "tlv \<Rightarrow> jsstring" where
  "emit (t, l, v) = t @ l @ v"

definition emitAll :: "tlv list \<Rightarrow> jsstring" where
  "emitAll fs = concat (map emit fs)"

text \<open>A field fits the format when its tag has two characters, its value at most 99, and
  its length is the count of the value: then the length has two digits.\<close>

fun fits :: "tlv \<Rightarrow> bool" where
  "fits (t, l, v) = (length t = 2 \<and> length v < 100 \<and> l = lengthPrefix v)"

text \<open>The length of a field counts its value when it is two characters that read, as a
  decimal number, the number of characters of the value.\<close>

fun lengthCounts :: "tlv \<Rightarrow> bool" where
  "lengthCounts (t, l, v) = (length t = 2 \<and> length l = 2 \<and> decimal2 l = Some (length v))"

text \<open>The fields the encoder of \<open>index.ts\<close> is to emit for a payload, in order: the ten
  data fields, then the checksum field over everything before its value.\<close>

definition merchantAccountFields :: "payload \<Rightarrow> tlv list" where
  "merchantAccountFields p = [field (lit ''00'') (lit ''bakong''), field (lit ''01'') (merchantId p)]"

definition additionalDataFields :: "payload \<Rightarrow> tlv list" where
  "additionalDataFields p = [field (lit ''01'') (take 25 (transactionId p))]"

definition khqrDataFields :: "payload \<Rightarrow> tlv list" where
  "khqrDataFields p =
     [field (lit ''00'') (lit ''01''),
      field (lit ''01'') (lit ''12''),
      field (lit ''29'') (emitAll (merchantAccountFields p)),
      field (lit ''52'') (lit ''5411''),
      field (lit ''53'') (if currency p = lit ''USD'' then lit ''840'' else lit ''116''),
      field (lit ''54'') (amount p),
      field (lit ''58'') (lit ''KH''),
      field (lit ''59'') (take 25 (merchantName p)),
      field (lit ''60'') (take 15 (merchantCity p)),
      field (lit ''62'') (emitAll (additionalDataFields p))]"

definition khqrFields :: "payload \<Rightarrow> tlv list" where
  "khqrFields p =
     khqrDataFields p
     @ [field (lit ''63'') (calculateCRC16 (emitAll (khqrDataFields p) @ lit ''6304''))]"

section \<open>Concrete payloads\<close>

text \<open>The payload the handler of \<open>index.ts\<close> builds for the request
  \<open>{amount: 10, currency: "USD", orderId: "ORDER123"}\<close> when the gateway has no
  configuration row.\<close>

definition sample_payload :: payload where
  "sample_payload =
     \<lparr> merchantId = lit ''merchant@bakong'',
       merchantName = lit ''GameHost'',
       merchantCity = lit ''Phnom Penh'',
       merchantCountry = lit ''KH'',
       currency = lit ''USD'',
       amount = lit ''10.00'',
       transactionId = lit ''ORDER123'',
       additionalData = lit ''Order ORDER123'',
       accountNumber = [] \<rparr>"

text \<open>The same payload with a merchant id of 86 characters in the gateway configuration.\<close>

definition long_merchantId_payload :: payload where
  "long_merchantId_payload =
     sample_payload \<lparr> merchantId :=
       lit ''AAAAAAAAAAAAAAAAAAAAAAAAAAAAAAAAAAAAAAAAAAAAAAAAAAAAAAAAAAAAAAAAAAAAAAAAAAAAAAAAAAAAAA'' \<rparr>"

text \<open>The sample payload with a name of 30 characters, a city of 23 and a transaction id
  of 30.\<close>

definition long_fields_payload :: payload where
  "long_fields_payload =
     sample_payload \<lparr> merchantName := lit ''ABCDEFGHIJKLMNOPQRSTUVWXYZ0123'',
                      merchantCity := lit ''Phnom Penh Municipality'',
                      transactionId := lit ''INVOICE-2024-0123456789-ABCDEF'' \<rparr>"

text \<open>The payload of a payment of 41000 riel.\<close>

definition khr_payload :: payload where
  "khr_payload = sample_payload \<lparr> currency := lit ''KHR'', amount := lit ''41000'' \<rparr>"

text \<open>The gateway configuration when the table has no row for the gateway: \<open>{}\<close>.\<close>

definition no_config :: gateway_config where
  "no_config = \<lparr> cfg_merchantId = JUndefined, cfg_merchantName = JUndefined,
       cfg_merchantCity = JUndefined, cfg_accountNumber = JUndefined,
       cfg_currency = JUndefined \<rparr>"

text \<open>The configuration that sets the currency of the gateway and nothing else.\<close>

definition currency_config :: "jsstring \<Rightarrow> gateway_config" where
  "currency_config c = no_config \<lparr> cfg_currency := JString c \<rparr>"

section \<open>The checksum refines CRC16-CCITT-FALSE\<close>

subsection \<open>The 32-bit register against the masked 16-bit register\<close>

lemma mask16_nat: "(0xFFFF :: nat) = mask 16"
  by (simp add: mask_eq_exp_minus_1)

lemma mask16_word: "(0xFFFF :: 32 word) = mask 16"
  by (simp add: mask_eq_exp_minus_1)

lemma and_FFFF_nat: "(x::nat) AND 0xFFFF = take_bit 16 x"
  by (simp only: mask16_nat take_bit_eq_mask)

lemma and_FFFF_word: "unat ((w :: 32 word) AND 0xFFFF) = take_bit 16 (unat w)"
  by (simp only: mask16_word unsigned_take_bit_eq flip: take_bit_eq_mask)

lemma and_8000_iff_bit: "(w :: 32 word) AND 0x8000 \<noteq> 0 \<longleftrightarrow> bit w 15"
proof -
  have "(0x8000 :: 32 word) = 2 ^ 15" by simp
  then show ?thesis
    by (simp only: and_exp_eq_0_iff_not_bit) simp
qed

lemma high_bit_agrees:
  assumes "take_bit 16 (unat w) = take_bit 16 r"
  shows "bit w 15 = bit r 15"
proof -
  have "bit (take_bit 16 (unat w)) 15 = bit (take_bit 16 r) 15"
    using assms by simp
  then show ?thesis
    by (simp add: bit_take_bit_iff bit_unsigned_iff)
qed

lemma low15_agree:
  assumes "take_bit 16 (a::nat) = take_bit 16 r"
  shows "take_bit 15 a = take_bit 15 r"
proof -
  have "take_bit 15 (take_bit 16 a) = take_bit 15 (take_bit 16 r)"
    using assms by simp
  then show ?thesis by simp
qed

lemma low16_push_word:
  "take_bit 16 (unat (push_bit 1 w :: 32 word)) = push_bit 1 (take_bit 15 (unat w))"
  by (simp only: unsigned_push_bit_eq take_bit_take_bit take_bit_push_bit) simp

lemma low16_push_nat:
  "take_bit 16 (push_bit 1 (r::nat)) = push_bit 1 (take_bit 15 r)"
  by (simp only: take_bit_push_bit) simp

text \<open>One shift: the low 16 bits of the unmasked 32-bit register are the masked register.\<close>

lemma crc_shift_ref:
  assumes "take_bit 16 (unat w) = take_bit 16 r"
  shows "take_bit 16 (unat (crc_shift w)) = ref_shift r"
proof -
  have b: "bit w 15 = bit r 15" by (rule high_bit_agrees[OF assms])
  have t: "take_bit 15 (unat w) = take_bit 15 r" by (rule low15_agree[OF assms])
  have p: "take_bit 16 (unat (push_bit 1 w)) = take_bit 16 (push_bit 1 r)"
    by (simp only: low16_push_word low16_push_nat t)
  show ?thesis
  proof (cases "bit r 15")
    case True
    then have "crc_shift w = push_bit 1 w XOR 0x1021"
      by (simp add: crc_shift_def and_8000_iff_bit b)
    then have "take_bit 16 (unat (crc_shift w))
               = take_bit 16 (unat (push_bit 1 w)) XOR take_bit 16 0x1021"
      by (simp only: unsigned_xor_eq take_bit_xor) simp
    also have "\<dots> = take_bit 16 (push_bit 1 r XOR 0x1021)"
      by (simp only: p take_bit_xor)
    finally show ?thesis using True
      by (simp add: ref_shift_def mask16_nat take_bit_eq_mask)
  next
    case False
    then have "crc_shift w = push_bit 1 w"
      by (simp add: crc_shift_def and_8000_iff_bit b)
    then show ?thesis using False p
      by (simp add: ref_shift_def mask16_nat take_bit_eq_mask)
  qed
qed

lemma ref_shift_less: "ref_shift r < 65536"
proof -
  have "take_bit 16 x < (2::nat) ^ 16" for x :: nat
    by (rule take_bit_nat_less_exp)
  then show ?thesis
    unfolding ref_shift_def and_FFFF_nat by simp
qed

lemma crc_inner_ref:
  assumes "take_bit 16 (unat w) = take_bit 16 r"
  shows "take_bit 16 (unat (crc_inner n w)) = take_bit 16 ((ref_shift ^^ n) r)"
  using assms
proof (induction n arbitrary: w r)
  case 0
  then show ?case by simp
next
  case (Suc n)
  have "take_bit 16 (unat (crc_shift w)) = take_bit 16 (ref_shift r)"
    using crc_shift_ref[OF Suc.prems] by (simp add: ref_shift_def mask16_nat take_bit_eq_mask)
  from Suc.IH[OF this] show ?case by (simp add: funpow_swap1)
qed

lemma ref_funpow_less: "0 < n \<Longrightarrow> (ref_shift ^^ n) r < 65536"
  by (cases n) (simp_all add: ref_shift_less)

lemma ref_char_less: "ref_char r c < 65536"
  unfolding ref_char_def by (rule ref_funpow_less) simp

lemma take_bit_32_code_unit: "take_bit 32 (unat (c :: 16 word)) = unat c"
proof -
  have "unat c < 2 ^ 16" using unsigned_less[of c] by simp
  then have "unat c < 2 ^ 32" by simp
  then show ?thesis by (simp only: take_bit_nat_eq_self_iff)
qed

text \<open>One character: after the mask \<open>crc &= 0xFFFF\<close> the two registers are equal.\<close>

lemma crc_char_ref:
  assumes "unat w = r"
  shows "unat (crc_char w c) = ref_char r c"
proof -
  have "take_bit 16 (unat (w XOR push_bit 8 (ucast c)))
        = take_bit 16 (r XOR push_bit 8 (unat c))"
    using assms
    by (simp add: unsigned_xor_eq unsigned_push_bit_eq unsigned_ucast_eq
        take_bit_32_code_unit)
  from crc_inner_ref[OF this, of 8]
  show ?thesis
    using ref_char_less[of r c]
    by (simp only: crc_char_def and_FFFF_word ref_char_def take_bit_nat_eq_self_iff) simp
qed

lemma foldl_crc_char_ref:
  "unat w = r \<Longrightarrow> unat (foldl crc_char w s) = foldl ref_char r s"
  by (induction s arbitrary: w r) (simp_all add: crc_char_ref)

lemma crc_register_ref: "unat (crc_register s) = crc16_ccitt_false s"
  unfolding crc_register_def crc16_ccitt_false_def by (rule foldl_crc_char_ref) simp

lemma foldl_ref_char_less: "r < 65536 \<Longrightarrow> foldl ref_char r s < 65536"
  by (induction s arbitrary: r) (simp_all add: ref_char_less)

lemma crc16_ccitt_false_less: "crc16_ccitt_false s < 65536"
  unfolding crc16_ccitt_false_def by (rule foldl_ref_char_less) simp

text \<open>The register is never negative as a signed 32-bit number, so \<open>toString(16)\<close> writes
  no sign.\<close>

lemma sint_crc_register: "sint (crc_register s) = int (crc16_ccitt_false s)"
proof -
  have "uint (crc_register s) = int (crc16_ccitt_false s)"
    using crc_register_ref[of s] by (simp add: uint_nat)
  moreover have "int (crc16_ccitt_false s) < 2 ^ 31"
    using crc16_ccitt_false_less[of s] by simp
  ultimately show ?thesis
    by (simp add: sint_uint signed_take_bit_int_eq_self)
qed

subsection \<open>The formatting \<open>toString(16).toUpperCase().padStart(4, "0")\<close>\<close>

lemma upperChar_digitChar: "d < 16 \<Longrightarrow> upperChar (digitChar d) = hexDigitUpper d"
proof -
  assume "d < 16"
  then have "d \<in> {0, 1, 2, 3, 4, 5, 6, 7, 8, 9, 10, 11, 12, 13, 14, 15}" by simp presburger
  then show ?thesis
    by (auto simp add: upperChar_def digitChar_def hexDigitUpper_def lit_def)
qed

lemma digitsOf_16_small: "n < 16 \<Longrightarrow> digitsOf 16 n = [digitChar n]"
  by (simp add: digitsOf.simps)

lemma digitsOf_16_step:
  "16 \<le> n \<Longrightarrow> digitsOf 16 n = digitsOf 16 (n div 16) @ [digitChar (n mod 16)]"
  by (subst digitsOf.simps) simp

lemma hexDigitUpper_0: "hexDigitUpper 0 = 48"
  by (simp add: hexDigitUpper_def lit_def)

lemma format_hex4:
  assumes "n < 65536"
  shows "padStart (toUpperCase (digitsOf 16 n)) 4 (lit ''0'') = hex4 n"
proof -
  consider "n < 16" | "16 \<le> n" "n < 256" | "256 \<le> n" "n < 4096" | "4096 \<le> n"
    by linarith
  then show ?thesis
  proof cases
    case 1
    then show ?thesis
      by (simp add: digitsOf_16_small toUpperCase_def upperChar_digitChar padStart_def hex4_def
          hexDigitUpper_0 lit_def numeral_3_eq_3)
  next
    case 2
    then have "n div 16 < 16" by simp
    with 2 show ?thesis
      by (simp add: digitsOf_16_step digitsOf_16_small toUpperCase_def upperChar_digitChar
          padStart_def hex4_def hexDigitUpper_0 lit_def numeral_2_eq_2)
  next
    case 3
    then have "n div 16 div 16 < 16" "16 \<le> n div 16" by simp_all
    with 3 show ?thesis
      by (simp add: digitsOf_16_step digitsOf_16_small toUpperCase_def upperChar_digitChar
          padStart_def hex4_def hexDigitUpper_0 lit_def div_mult2_eq[symmetric])
  next
    case 4
    with assms have "n div 16 div 16 div 16 < 16" "16 \<le> n div 16 div 16" "16 \<le> n div 16"
      by simp_all
    with 4 show ?thesis
      by (simp add: digitsOf_16_step digitsOf_16_small toUpperCase_def upperChar_digitChar
          padStart_def hex4_def lit_def div_mult2_eq[symmetric])
  qed
qed

lemma calculateCRC16_reference: "calculateCRC16 s = crc16_reference s"
  using crc16_ccitt_false_less[of s]
  by (simp add: calculateCRC16_def crc16_reference_def sint_crc_register numberToString_def
      format_hex4)

lemma length_calculateCRC16: "length (calculateCRC16 s) = 4"
  by (simp add: calculateCRC16_reference crc16_reference_def hex4_def)

subsection \<open>Running the checksum on a concrete string\<close>

lemma crc_inner_8:
  "crc_inner 8 w =
     crc_shift (crc_shift (crc_shift (crc_shift (crc_shift (crc_shift (crc_shift (crc_shift w)))))))"
  by (simp add: eval_nat_numeral)

lemmas crc_eval =
  calculateCRC16_def crc_register_def crc_char_def crc_inner_8 crc_shift_def
  numberToString_def digitsOf.simps padStart_def toUpperCase_def upperChar_def digitChar_def

text \<open>The check value of CRC16-CCITT-FALSE: the checksum of \<open>123456789\<close> is \<open>29B1\<close>.\<close>

lemma calculateCRC16_check_value: "calculateCRC16 (lit ''123456789'') = lit ''29B1''"
  by (simp add: crc_eval lit_def)

text \<open>
  Claim C2. \<open>calculateCRC16\<close> computes the CRC16-CCITT-FALSE reference of the specification
  on every string: the register starts at \<open>0xFFFF\<close>, takes each code unit shifted left by
  8 bits, is shifted eight times with the polynomial \<open>0x1021\<close> and masked to 16 bits, and
  is written as four uppercase hexadecimal digits. The checksum of the empty string is
  \<open>FFFF\<close>, and the result always has exactly four characters.
\<close>

theorem calculateCRC16_is_ccitt_false:
  "calculateCRC16 s = crc16_reference s
   \<and> calculateCRC16 [] = lit ''FFFF''
   \<and> length (calculateCRC16 s) = 4"
proof -
  have "crc16_reference [] = lit ''FFFF''"
    by (simp add: crc16_reference_def crc16_ccitt_false_def hex4_def hexDigitUpper_def lit_def)
  then have "calculateCRC16 [] = lit ''FFFF''"
    by (simp only: calculateCRC16_reference)
  with calculateCRC16_reference[of s] length_calculateCRC16[of s] show ?thesis
    by blast
qed

section \<open>The encoder emits a sequence of fields\<close>

lemma substring_0: "substring s 0 n = take n s"
  by (simp add: substring_def)

lemma emit_field: "emit (field t v) = t @ lengthPrefix v @ v"
  by (simp add: field_def lengthPrefix_def)

lemma generateKHQRString_text:
  "generateKHQRString p =
    (let body = lit ''000201'' @ lit ''010212''
       @ emit (field (lit ''29'') (lit ''0006bakong'' @ emit (field (lit ''01'') (merchantId p))))
       @ lit ''52045411''
       @ lit ''5303'' @ (if currency p = lit ''USD'' then lit ''840'' else lit ''116'')
       @ emit (field (lit ''54'') (amount p))
       @ lit ''5802KH''
       @ emit (field (lit ''59'') (take 25 (merchantName p)))
       @ emit (field (lit ''60'') (take 15 (merchantCity p)))
       @ emit (field (lit ''62'') (emit (field (lit ''01'') (take 25 (transactionId p)))))
       @ lit ''6304''
     in body @ calculateCRC16 body)"
  by (simp only: generateKHQRString_def Let_def emit_field substring_0 append_assoc append_Nil)

lemma lengthPrefix_digit: "length v = n \<Longrightarrow> n < 10 \<Longrightarrow> lengthPrefix v = [48, digitChar n]"
  by (simp add: lengthPrefix_def numberToString_def digitsOf.simps padStart_def lit_def)

lemma emit_format_indicator: "emit (field (lit ''00'') (lit ''01'')) = lit ''000201''"
  by (simp add: emit_field lengthPrefix_digit[where n=2] digitChar_def lit_def)

lemma emit_initiation_method: "emit (field (lit ''01'') (lit ''12'')) = lit ''010212''"
  by (simp add: emit_field lengthPrefix_digit[where n=2] digitChar_def lit_def)

lemma emit_bakong: "emit (field (lit ''00'') (lit ''bakong'')) = lit ''0006bakong''"
  by (simp add: emit_field lengthPrefix_digit[where n=6] digitChar_def lit_def)

lemma emit_category: "emit (field (lit ''52'') (lit ''5411'')) = lit ''52045411''"
  by (simp add: emit_field lengthPrefix_digit[where n=4] digitChar_def lit_def)

lemma emit_currency:
  "emit (field (lit ''53'') (if b then lit ''840'' else lit ''116''))
   = lit ''5303'' @ (if b then lit ''840'' else lit ''116'')"
  by (simp add: emit_field lengthPrefix_digit[where n=3] digitChar_def lit_def)

lemma emit_country: "emit (field (lit ''58'') (lit ''KH'')) = lit ''5802KH''"
  by (simp add: emit_field lengthPrefix_digit[where n=2] digitChar_def lit_def)

lemma emit_crc: "emit (field (lit ''63'') (calculateCRC16 x)) = lit ''6304'' @ calculateCRC16 x"
  by (simp add: emit_field lengthPrefix_digit[where n=4] length_calculateCRC16 digitChar_def lit_def)

lemmas emit_constants = emit_format_indicator emit_initiation_method emit_bakong emit_category
  emit_currency emit_country emit_crc

lemma generateKHQRString_fields: "generateKHQRString p = emitAll (khqrFields p)"
proof -
  have "emitAll (khqrFields p) =
    (let body = lit ''000201'' @ lit ''010212''
       @ emit (field (lit ''29'') (lit ''0006bakong'' @ emit (field (lit ''01'') (merchantId p))))
       @ lit ''52045411''
       @ lit ''5303'' @ (if currency p = lit ''USD'' then lit ''840'' else lit ''116'')
       @ emit (field (lit ''54'') (amount p))
       @ lit ''5802KH''
       @ emit (field (lit ''59'') (take 25 (merchantName p)))
       @ emit (field (lit ''60'') (take 15 (merchantCity p)))
       @ emit (field (lit ''62'') (emit (field (lit ''01'') (take 25 (transactionId p)))))
       @ lit ''6304''
     in body @ calculateCRC16 body)"
    by (simp only: emitAll_def khqrFields_def khqrDataFields_def merchantAccountFields_def
        additionalDataFields_def list.map concat.simps append_Nil2 emit_constants map_append
        concat_append append_assoc Let_def)
  then show ?thesis
    by (simp only: generateKHQRString_def Let_def emit_field substring_0 append_assoc append_Nil)
qed

lemma generateKHQRString_checksum:
  "generateKHQRString p =
     (emitAll (khqrDataFields p) @ lit ''6304'')
     @ calculateCRC16 (emitAll (khqrDataFields p) @ lit ''6304'')"
  by (simp only: generateKHQRString_fields khqrFields_def emitAll_def map_append concat_append
      list.map concat.simps append_Nil2 emit_crc append_assoc)

text \<open>
  Claim C1. For every payload the output of the encoder ends in exactly four characters,
  which are the checksum \<open>calculateCRC16\<close> of all the characters before them; those
  characters end with \<open>6304\<close>, and the checksum digits are not part of the checksummed
  input.
\<close>

theorem crc_placement:
  "4 \<le> length (generateKHQRString p)
   \<and> drop (length (generateKHQRString p) - 4) (generateKHQRString p)
       = calculateCRC16 (take (length (generateKHQRString p) - 4) (generateKHQRString p))
   \<and> suffix (lit ''6304'') (take (length (generateKHQRString p) - 4) (generateKHQRString p))"
proof -
  define body where "body = emitAll (khqrDataFields p) @ lit ''6304''"
  have out: "generateKHQRString p = body @ calculateCRC16 body"
    unfolding body_def by (rule generateKHQRString_checksum)
  have len: "length (generateKHQRString p) - 4 = length body"
    by (simp add: out length_calculateCRC16)
  have "suffix (lit ''6304'') body"
    unfolding body_def by (rule suffix_appendI) simp
  then show ?thesis
    unfolding len by (simp add: out length_calculateCRC16)
qed

section \<open>Sequential parsing of emitted fields\<close>

lemma digitsOf_10_small: "n < 10 \<Longrightarrow> digitsOf 10 n = [digitChar n]"
  by (simp add: digitsOf.simps)

lemma digitsOf_10_two: "10 \<le> n \<Longrightarrow> n < 100 \<Longrightarrow> digitsOf 10 n = [digitChar (n div 10), digitChar (n mod 10)]"
  by (subst digitsOf.simps) (simp add: digitsOf_10_small)

lemma digitsOf_10_numeral:
  "digitsOf 10 (numeral k) =
     (if numeral k < (10::nat) then [digitChar (numeral k)]
      else digitsOf 10 (numeral k div 10) @ [digitChar (numeral k mod 10)])"
  by (subst digitsOf.simps) simp

lemma lengthPrefix_two_digits:
  assumes "length v < 100"
  shows "lengthPrefix v = [digitChar (length v div 10), digitChar (length v mod 10)]"
proof (cases "length v < 10")
  case True
  then show ?thesis
    by (simp add: lengthPrefix_def numberToString_def digitsOf_10_small padStart_def lit_def digitChar_def)
next
  case False
  with assms show ?thesis
    by (simp add: lengthPrefix_def numberToString_def digitsOf_10_two padStart_def)
qed

lemma decimal2_digitChar:
  assumes "a < 10" "b < 10"
  shows "decimal2 [digitChar a, digitChar b] = Some (10 * a + b)"
proof -
  have "unat (of_nat (48 + a) :: 16 word) = 48 + a" "unat (of_nat (48 + b) :: 16 word) = 48 + b"
    using assms by (simp_all only: unat_of_nat) simp_all
  moreover have "(48 :: 16 word) \<le> of_nat (48 + a)" "(of_nat (48 + a) :: 16 word) \<le> 57"
     "(48 :: 16 word) \<le> of_nat (48 + b)" "(of_nat (48 + b) :: 16 word) \<le> 57"
    using assms calculation by (simp_all add: word_le_nat_alt)
  ultimately show ?thesis
    using assms by (simp add: digitChar_def isDigit_def)
qed

lemma decimal2_lengthPrefix:
  assumes "length v < 100"
  shows "decimal2 (lengthPrefix v) = Some (length v)"
proof -
  have "length v div 10 < 10" "length v mod 10 < 10" using assms by simp_all
  then show ?thesis
    using assms by (simp only: lengthPrefix_two_digits decimal2_digitChar) simp
qed

lemma length_lengthPrefix: "length v < 100 \<Longrightarrow> length (lengthPrefix v) = 2"
  by (simp add: lengthPrefix_two_digits)

lemma parseTLV_emit:
  assumes "fits f"
  shows "parseTLV (emit f @ rest) = map_option ((#) f) (parseTLV rest)"
proof -
  obtain t l v where f: "f = (t, l, v)" by (cases f)
  with assms have t: "length t = 2" and v: "length v < 100" and l: "l = lengthPrefix v"
    by simp_all
  have l2: "length l = 2" using l v by (simp add: length_lengthPrefix)
  have d: "decimal2 l = Some (length v)" using l v by (simp add: decimal2_lengthPrefix)
  have ne: "t \<noteq> []" using t by auto
  show ?thesis
    by (subst parseTLV.simps) (simp add: f t l2 d ne)
qed

lemma parseTLV_emitAll: "list_all fits fs \<Longrightarrow> parseTLV (emitAll fs) = Some fs"
proof (induction fs)
  case Nil
  then show ?case by (simp add: emitAll_def parseTLV.simps)
next
  case (Cons f fs)
  then have "parseTLV (emit f @ emitAll fs) = Some (f # fs)"
    by (simp add: parseTLV_emit)
  then show ?case by (simp add: emitAll_def)
qed

lemma length_emit_field: "length v < 100 \<Longrightarrow> length (emit (field t v)) = length t + 2 + length v"
  by (simp add: emit_field length_lengthPrefix)

lemma fits_field: "length t = 2 \<Longrightarrow> length v < 100 \<Longrightarrow> fits (field t v)"
  by (simp add: field_def lengthPrefix_def)

lemma length_lit: "length (lit s) = length s"
  by (simp add: lit_def)

lemma length_merchantAccount:
  "length (merchantId p) < 100 \<Longrightarrow> length (emitAll (merchantAccountFields p)) = 14 + length (merchantId p)"
  by (simp add: emitAll_def merchantAccountFields_def length_emit_field length_lit)

lemma length_additionalData:
  "length (emitAll (additionalDataFields p)) = 4 + min (length (transactionId p)) 25"
  by (simp add: emitAll_def additionalDataFields_def length_emit_field length_lit)

lemma fits_merchantAccountFields:
  "length (merchantId p) < 100 \<Longrightarrow> list_all fits (merchantAccountFields p)"
  by (simp add: merchantAccountFields_def fits_field length_lit)

lemma fits_additionalDataFields: "list_all fits (additionalDataFields p)"
  by (simp add: additionalDataFields_def fits_field length_lit)

lemma fits_khqrFields:
  assumes "length (merchantId p) \<le> 85" "length (amount p) \<le> 99"
  shows "list_all fits (khqrFields p)"
  using assms
  by (simp add: khqrFields_def khqrDataFields_def fits_field length_lit length_merchantAccount
      length_additionalData length_calculateCRC16)

lemma fits_lengthCounts: "fits f \<Longrightarrow> lengthCounts f"
  by (cases f) (simp add: length_lengthPrefix decimal2_lengthPrefix)

lemma list_all_fits_lengthCounts: "list_all fits fs \<Longrightarrow> list_all lengthCounts fs"
  by (induction fs) (simp_all add: fits_lengthCounts)

text \<open>
  Claim C3, as amended. For the encoder of \<open>index.ts\<close> and every payload whose merchant
  id has at most 85 characters and whose amount string has at most 99, each emitted length
  is the two-digit count of its value, and reading the output as tag(2), length(2),
  value(length) gives back exactly the fields it was built from, with nothing left over; the
  values of tags 29 and 62 parse in the same way into their sub-fields.
\<close>

theorem length_prefix_roundtrip:
  assumes "length (merchantId p) \<le> 85" and "length (amount p) \<le> 99"
  shows "parseTLV (generateKHQRString p) = Some (khqrFields p)
       \<and> list_all lengthCounts (khqrFields p)
       \<and> parseTLV (emitAll (merchantAccountFields p)) = Some (merchantAccountFields p)
       \<and> list_all lengthCounts (merchantAccountFields p)
       \<and> parseTLV (emitAll (additionalDataFields p)) = Some (additionalDataFields p)
       \<and> list_all lengthCounts (additionalDataFields p)"
  using assms
  by (simp add: generateKHQRString_fields parseTLV_emitAll fits_khqrFields
      fits_merchantAccountFields fits_additionalDataFields list_all_fits_lengthCounts)

lemma decimal2_less: "decimal2 l = Some n \<Longrightarrow> n < 100"
proof (cases l rule: decimal2.cases)
  case (1 a b)
  assume d: "decimal2 l = Some n"
  have "unat a \<le> 57" if "isDigit a" using that by (simp add: isDigit_def word_le_nat_alt)
  moreover have "unat b \<le> 57" if "isDigit b" using that by (simp add: isDigit_def word_le_nat_alt)
  ultimately show ?thesis using d 1 by (auto split: if_splits)
qed simp_all

lemma parseTLV_lengthCounts: "parseTLV s = Some fs \<Longrightarrow> list_all lengthCounts fs"
proof (induction s arbitrary: fs rule: parseTLV.induct)
  case (1 s)
  show ?case
  proof (cases "s = []")
    case True
    with "1.prems" show ?thesis by (simp add: parseTLV.simps)
  next
    case False
    from "1.prems" False have len: "\<not> length s < 4"
      by (subst (asm) parseTLV.simps) (simp split: if_splits)
    from "1.prems" False len obtain n where n: "decimal2 (take 2 (drop 2 s)) = Some n"
      by (subst (asm) parseTLV.simps) (simp split: option.splits)
    from "1.prems" False len n have fit: "\<not> length s < 4 + n"
      by (subst (asm) parseTLV.simps) (simp split: if_splits)
    from "1.prems" False len n fit obtain rest where
      rest: "parseTLV (drop (4 + n) s) = Some rest"
      and fs: "fs = (take 2 s, take 2 (drop 2 s), take n (drop 4 s)) # rest"
      by (subst (asm) parseTLV.simps) auto
    have "list_all lengthCounts rest"
      using "1.IH"[OF False len n fit rest] .
    moreover have "lengthCounts (take 2 s, take 2 (drop 2 s), take n (drop 4 s))"
      using len fit n by simp
    ultimately show ?thesis by (simp add: fs)
  qed
qed

text \<open>
  With a merchant id of 86 characters the value of tag 29 has 100 characters and its length
  is written \<open>100\<close>, with three digits.
\<close>

lemma long_merchantId_prefix:
  "take 17 (generateKHQRString long_merchantId_payload) = lit ''00020101021229100''"
proof -
  have mid: "length (merchantId long_merchantId_payload) = 86"
    by (simp add: long_merchantId_payload_def sample_payload_def length_lit)
  have inner: "length (lit ''0006bakong''
                 @ emit (field (lit ''01'') (merchantId long_merchantId_payload))) = 100"
    by (simp add: length_emit_field mid length_lit)
  have "lengthPrefix (lit ''0006bakong''
          @ emit (field (lit ''01'') (merchantId long_merchantId_payload))) = lit ''100''"
    unfolding lengthPrefix_def inner
    by (simp add: numberToString_def digitsOf_10_numeral digitsOf_10_small padStart_def
        digitChar_def lit_def)
  then show ?thesis
    unfolding generateKHQRString_text Let_def
    by (simp add: emit_field lit_def)
qed

text \<open>
  The sequential parser reads two characters of length, so it cannot give back a value of
  100 characters: it does not recover the tags and values the output was built from.
\<close>

lemma long_merchantId_not_recovered:
  "map_option tagValues (parseTLV (generateKHQRString long_merchantId_payload))
   \<noteq> Some (tagValues (khqrFields long_merchantId_payload))"
proof
  assume eq: "map_option tagValues (parseTLV (generateKHQRString long_merchantId_payload))
              = Some (tagValues (khqrFields long_merchantId_payload))"
  then obtain fs where p: "parseTLV (generateKHQRString long_merchantId_payload) = Some fs"
    and tv: "tagValues fs = tagValues (khqrFields long_merchantId_payload)"
    by auto
  have mid: "length (merchantId long_merchantId_payload) = 86"
    by (simp add: long_merchantId_payload_def sample_payload_def length_lit)
  have len: "length (emitAll (merchantAccountFields long_merchantId_payload)) = 100"
    by (simp add: length_merchantAccount mid)
  have "length (tagValues fs) = 11"
    by (simp only: tv) (simp add: tagValues_def khqrFields_def khqrDataFields_def)
  then have l11: "length fs = 11" unfolding tagValues_def by simp
  have "tagValues fs ! 2 = (lit ''29'', emitAll (merchantAccountFields long_merchantId_payload))"
    by (simp only: tv) (simp add: tagValues_def khqrFields_def khqrDataFields_def field_def)
  then have v: "snd (snd (fs ! 2)) = emitAll (merchantAccountFields long_merchantId_payload)"
    using l11 by (simp add: tagValues_def split_beta)
  have "lengthCounts (fs ! 2)"
    using parseTLV_lengthCounts[OF p] l11 by (simp add: list_all_length)
  then have "decimal2 (fst (snd (fs ! 2))) = Some 100"
    using v len by (cases "fs ! 2") simp
  from decimal2_less[OF this] show False by simp
qed

text \<open>
  The claim C3 as it is stated fails on the payload with the merchant id of 86 characters.
\<close>

theorem long_merchantId_counterexample:
  "take 17 (generateKHQRString long_merchantId_payload) = lit ''00020101021229100''
   \<and> map_option tagValues (parseTLV (generateKHQRString long_merchantId_payload))
       \<noteq> Some (tagValues (khqrFields long_merchantId_payload))"
  using long_merchantId_prefix long_merchantId_not_recovered by (rule conjI)

section \<open>The encoder on the sample payload\<close>

lemmas string_eval =
  lengthPrefix_def numberToString_def digitsOf.simps padStart_def digitChar_def substring_def

lemma sample_output:
  "generateKHQRString sample_payload =
     lit ''00020101021229290006bakong0115merchant@bakong520454115303840540510.005802KH5908GameHost6010Phnom Penh62120108ORDER1236304012B''"
  apply (simp only: sample_payload_def generateKHQRString_def Let_def)
  apply (simp add: string_eval lit_def)
  apply (simp add: crc_eval lit_def)
  done

text \<open>The sample payload is within the bounds, and its output parses back into its fields.\<close>

theorem length_prefix_roundtrip_witness:
  "length (merchantId sample_payload) \<le> 85 \<and> length (amount sample_payload) \<le> 99
   \<and> parseTLV (generateKHQRString sample_payload) = Some (khqrFields sample_payload)
   \<and> list_all lengthCounts (khqrFields sample_payload)
   \<and> parseTLV (emitAll (merchantAccountFields sample_payload))
       = Some (merchantAccountFields sample_payload)
   \<and> list_all lengthCounts (merchantAccountFields sample_payload)
   \<and> parseTLV (emitAll (additionalDataFields sample_payload))
       = Some (additionalDataFields sample_payload)
   \<and> list_all lengthCounts (additionalDataFields sample_payload)"
proof -
  have h: "length (merchantId sample_payload) \<le> 85" "length (amount sample_payload) \<le> 99"
    by (simp_all add: sample_payload_def length_lit)
  from length_prefix_roundtrip[OF h] h show ?thesis by blast
qed

text \<open>The fields of the sample output, as the sequential parser reads them.\<close>

lemma sample_parse:
  "parseTLV (generateKHQRString sample_payload) =
     Some [(lit ''00'', lit ''02'', lit ''01''), (lit ''01'', lit ''02'', lit ''12''),
           (lit ''29'', lit ''29'', lit ''0006bakong0115merchant@bakong''),
           (lit ''52'', lit ''04'', lit ''5411''), (lit ''53'', lit ''03'', lit ''840''),
           (lit ''54'', lit ''05'', lit ''10.00''), (lit ''58'', lit ''02'', lit ''KH''),
           (lit ''59'', lit ''08'', lit ''GameHost''), (lit ''60'', lit ''10'', lit ''Phnom Penh''),
           (lit ''62'', lit ''12'', lit ''0108ORDER123''), (lit ''63'', lit ''04'', lit ''012B'')]"
  unfolding sample_output
  by (simp add: parseTLV.simps lit_def isDigit_def)

section \<open>What the output contains\<close>

lemma currency_code_sublist:
  "sublist (lit ''5303'' @ (if currency p = lit ''USD'' then lit ''840'' else lit ''116''))
     (generateKHQRString p)"
proof -
  obtain pre post where "generateKHQRString p =
      pre @ (lit ''5303'' @ (if currency p = lit ''USD'' then lit ''840'' else lit ''116'')) @ post"
    unfolding generateKHQRString_text Let_def
    by (metis append.assoc)
  then show ?thesis by (metis sublist_appendI)
qed

text \<open>
  Claim C8. For every payload with currency \<open>USD\<close> the output of the encoder contains
  \<open>5303840\<close>, and for every payload with currency \<open>KHR\<close> it contains \<open>5303116\<close>.
\<close>

theorem currency_mapping:
  "(currency p = lit ''USD'' \<longrightarrow> sublist (lit ''5303840'') (generateKHQRString p))
   \<and> (currency p = lit ''KHR'' \<longrightarrow> sublist (lit ''5303116'') (generateKHQRString p))"
proof -
  have usd: "lit ''5303840'' = lit ''5303'' @ lit ''840''"
    and khr: "lit ''5303116'' = lit ''5303'' @ lit ''116''"
    and ne: "lit ''KHR'' \<noteq> lit ''USD''"
    by (simp_all add: lit_def)
  show ?thesis
    using currency_code_sublist[of p] by (auto simp add: usd khr ne)
qed

text \<open>A payload in dollars and a payload in riel.\<close>

theorem currency_mapping_witness:
  "currency sample_payload = lit ''USD''
   \<and> sublist (lit ''5303840'') (generateKHQRString sample_payload)
   \<and> currency khr_payload = lit ''KHR''
   \<and> sublist (lit ''5303116'') (generateKHQRString khr_payload)"
proof -
  have "currency sample_payload = lit ''USD''" "currency khr_payload = lit ''KHR''"
    by (simp_all add: sample_payload_def khr_payload_def)
  with currency_mapping[of sample_payload] currency_mapping[of khr_payload]
  show ?thesis by blast
qed

section \<open>The copies of the encoder\<close>

lemma crc_shift_part002: "crc_shift_part002 = crc_shift"
  by (rule ext) (simp add: crc_shift_part002_def crc_shift_def)

lemma crc_inner_part002: "crc_inner_part002 j w = crc_inner j w"
  by (induction j arbitrary: w) (simp_all add: crc_shift_part002)

lemma crc_char_part002: "crc_char_part002 = crc_char"
  by (intro ext) (simp add: crc_char_part002_def crc_char_def crc_inner_part002)

lemma calculateCRC16_part002: "calculateCRC16_part002 s = calculateCRC16 s"
  by (simp add: calculateCRC16_part002_def calculateCRC16_def crc_register_def crc_char_part002)

text \<open>
  Claim C10. The encoder of \<open>index.ts\<close> and the encoder of \<open>part_002\<close>, each with its own
  \<open>calculateCRC16\<close>, return the same string for every payload.
\<close>

theorem part002_same_encoder: "generateKHQRString p = generateKHQRString_part002 p"
  by (simp only: generateKHQRString_def generateKHQRString_part002_def calculateCRC16_part002)

section \<open>The order of the fields\<close>

lemma generateKHQRString_last4:
  "drop (length (generateKHQRString p) - 4) (generateKHQRString p)
   = calculateCRC16 (emitAll (khqrDataFields p) @ lit ''6304'')"
  by (simp add: generateKHQRString_checksum length_calculateCRC16)

lemma crc_shift_part001: "crc_shift_part001 = crc_shift"
  by (rule ext) (simp add: crc_shift_part001_def crc_shift_def)

lemma crc_inner_part001: "crc_inner_part001 j w = crc_inner j w"
  by (induction j arbitrary: w) (simp_all add: crc_shift_part001)

lemma crc_char_part001: "crc_char_part001 = crc_char"
  by (intro ext) (simp add: crc_char_part001_def crc_char_def crc_inner_part001)

lemma calculateCRC16_part001: "calculateCRC16_part001 s = calculateCRC16 s"
  by (simp add: calculateCRC16_part001_def calculateCRC16_def crc_register_def crc_char_part001)

lemma generateKHQRString_part001_text:
  "generateKHQRString_part001 p =
    (let body = lit ''000201'' @ lit ''010212''
       @ emit (field (lit ''29'')
            (lit ''0016'' @ merchantId p @ lit ''0115'' @ take 15 (merchantName p)))
       @ lit ''52045411''
       @ lit ''5303'' @ (if currency p = lit ''USD'' then lit ''840'' else lit ''116'')
       @ emit (field (lit ''54'') (amount p))
       @ lit ''5802KH''
       @ emit (field (lit ''59'') (take 25 (merchantName p)))
       @ emit (field (lit ''60'') (take 15 (merchantCity p)))
       @ emit (field (lit ''62'') (emit (field (lit ''05'') (take 25 (transactionId p)))))
       @ lit ''6304''
     in body @ calculateCRC16 body)"
  by (simp only: generateKHQRString_part001_def calculateCRC16_part001 Let_def emit_field
      substring_0 append_assoc append_Nil)

lemma part001_additional_data:
  "suffix (emit (field (lit ''62'') (emit (field (lit ''05'') (take 25 (transactionId p)))))
           @ lit ''6304'')
     (take (length (generateKHQRString_part001 p) - 4) (generateKHQRString_part001 p))"
proof -
  obtain pre where "generateKHQRString_part001 p =
      (pre @ emit (field (lit ''62'') (emit (field (lit ''05'') (take 25 (transactionId p)))))
           @ lit ''6304'')
      @ calculateCRC16 (pre @ emit (field (lit ''62'')
            (emit (field (lit ''05'') (take 25 (transactionId p))))) @ lit ''6304'')"
    unfolding generateKHQRString_part001_text Let_def
    by (metis append.assoc)
  then show ?thesis
    by (simp add: length_calculateCRC16 suffix_def)
qed

lemma prefix_format: "prefix (lit ''000201010212'') (generateKHQRString p)"
proof -
  have "lit ''000201010212'' = lit ''000201'' @ lit ''010212''" by (simp add: lit_def)
  then show ?thesis
    unfolding generateKHQRString_text Let_def by (simp only: append_assoc prefixI)
qed

lemma sublist_category: "sublist (lit ''52045411'') (generateKHQRString p)"
proof -
  obtain pre post where "generateKHQRString p = pre @ lit ''52045411'' @ post"
    unfolding generateKHQRString_text Let_def by (metis append.assoc)
  then show ?thesis by (metis sublist_appendI)
qed

lemma sublist_country: "sublist (lit ''5802KH'') (generateKHQRString p)"
proof -
  obtain pre post where "generateKHQRString p = pre @ lit ''5802KH'' @ post"
    unfolding generateKHQRString_text Let_def by (metis append.assoc)
  then show ?thesis by (metis sublist_appendI)
qed

text \<open>
  Claim C4, as amended. The encoder of \<open>index.ts\<close> emits the fields 00, 01, 29, 52, 53, 54,
  58, 59, 60, 62, 63 in this order, every length being the padded count of its value: the
  output begins with \<open>000201010212\<close>, contains \<open>52045411\<close> and \<open>5802KH\<close>, and the
  value of tag 62 is the single sub-field 01 holding the first 25 characters of the
  transaction id. The copy of the encoder in \<open>part_001\<close> ends its data fields with a tag 62
  whose single sub-field has the sub-tag 05 instead.
\<close>

theorem field_order:
  "generateKHQRString p =
     emitAll
       [field (lit ''00'') (lit ''01''),
        field (lit ''01'') (lit ''12''),
        field (lit ''29'')
          (emitAll [field (lit ''00'') (lit ''bakong''), field (lit ''01'') (merchantId p)]),
        field (lit ''52'') (lit ''5411''),
        field (lit ''53'') (if currency p = lit ''USD'' then lit ''840'' else lit ''116''),
        field (lit ''54'') (amount p),
        field (lit ''58'') (lit ''KH''),
        field (lit ''59'') (take 25 (merchantName p)),
        field (lit ''60'') (take 15 (merchantCity p)),
        field (lit ''62'') (emitAll [field (lit ''01'') (take 25 (transactionId p))]),
        field (lit ''63'')
          (drop (length (generateKHQRString p) - 4) (generateKHQRString p))]
   \<and> prefix (lit ''000201010212'') (generateKHQRString p)
   \<and> sublist (lit ''52045411'') (generateKHQRString p)
   \<and> sublist (lit ''5802KH'') (generateKHQRString p)
   \<and> suffix (emit (field (lit ''62'') (emit (field (lit ''05'') (take 25 (transactionId p)))))
              @ lit ''6304'')
        (take (length (generateKHQRString_part001 p) - 4) (generateKHQRString_part001 p))"
proof -
  have k: "khqrFields p =
       [field (lit ''00'') (lit ''01''),
        field (lit ''01'') (lit ''12''),
        field (lit ''29'')
          (emitAll [field (lit ''00'') (lit ''bakong''), field (lit ''01'') (merchantId p)]),
        field (lit ''52'') (lit ''5411''),
        field (lit ''53'') (if currency p = lit ''USD'' then lit ''840'' else lit ''116''),
        field (lit ''54'') (amount p),
        field (lit ''58'') (lit ''KH''),
        field (lit ''59'') (take 25 (merchantName p)),
        field (lit ''60'') (take 15 (merchantCity p)),
        field (lit ''62'') (emitAll [field (lit ''01'') (take 25 (transactionId p))]),
        field (lit ''63'')
          (drop (length (generateKHQRString p) - 4) (generateKHQRString p))]"
    by (simp only: generateKHQRString_last4 khqrFields_def khqrDataFields_def
        merchantAccountFields_def additionalDataFields_def append.simps)
  have "generateKHQRString p = emitAll (khqrFields p)"
    by (rule generateKHQRString_fields)
  also note k
  finally have order: "generateKHQRString p =
     emitAll
       [field (lit ''00'') (lit ''01''),
        field (lit ''01'') (lit ''12''),
        field (lit ''29'')
          (emitAll [field (lit ''00'') (lit ''bakong''), field (lit ''01'') (merchantId p)]),
        field (lit ''52'') (lit ''5411''),
        field (lit ''53'') (if currency p = lit ''USD'' then lit ''840'' else lit ''116''),
        field (lit ''54'') (amount p),
        field (lit ''58'') (lit ''KH''),
        field (lit ''59'') (take 25 (merchantName p)),
        field (lit ''60'') (take 15 (merchantCity p)),
        field (lit ''62'') (emitAll [field (lit ''01'') (take 25 (transactionId p))]),
        field (lit ''63'')
          (drop (length (generateKHQRString p) - 4) (generateKHQRString p))]" .
  from order prefix_format[of p] sublist_category[of p] sublist_country[of p]
    part001_additional_data[of p]
  show ?thesis by (intro conjI)
qed

lemma part001_output:
  "generateKHQRString_part001 sample_payload =
     lit ''00020101021229310016merchant@bakong0115GameHost520454115303840540510.005802KH5908GameHost6010Phnom Penh62120508ORDER12363046F23''"
  apply (simp only: sample_payload_def generateKHQRString_part001_def calculateCRC16_part001 Let_def)
  apply (simp add: lengthPrefix_def numberToString_def digitsOf.simps padStart_def digitChar_def substring_def lit_def)
  apply (simp add: crc_eval lit_def)
  done

text \<open>
  The encoder of \<open>part_001\<close> on the sample payload: the value of tag 62 is
  \<open>0508ORDER123\<close>, a sub-field with sub-tag 05, not 01.
\<close>

theorem part001_subtag_counterexample:
  "parseTLV (generateKHQRString_part001 sample_payload) =
     Some [(lit ''00'', lit ''02'', lit ''01''), (lit ''01'', lit ''02'', lit ''12''),
           (lit ''29'', lit ''31'', lit ''0016merchant@bakong0115GameHost''),
           (lit ''52'', lit ''04'', lit ''5411''), (lit ''53'', lit ''03'', lit ''840''),
           (lit ''54'', lit ''05'', lit ''10.00''), (lit ''58'', lit ''02'', lit ''KH''),
           (lit ''59'', lit ''08'', lit ''GameHost''), (lit ''60'', lit ''10'', lit ''Phnom Penh''),
           (lit ''62'', lit ''12'', lit ''0508ORDER123''), (lit ''63'', lit ''04'', lit ''6F23'')]
   \<and> parseTLV (lit ''0508ORDER123'') = Some [(lit ''05'', lit ''08'', lit ''ORDER123'')]"
  unfolding part001_output
  by (simp add: parseTLV.simps lit_def isDigit_def)

text \<open>
  The value of tag 29 in that output does not parse into sub-fields: \<open>part_001\<close> writes
  the lengths 16 and 15 whatever the merchant id and the name are.
\<close>

lemma part001_fixed_lengths:
  "parseTLV (lit ''0016merchant@bakong0115GameHost'') = None"
  by (simp add: parseTLV.simps lit_def isDigit_def)

section \<open>Truncation\<close>

lemma lengthPrefix_of_length:
  "length v = n \<Longrightarrow> n < 100 \<Longrightarrow> lengthPrefix v = [digitChar (n div 10), digitChar (n mod 10)]"
  by (simp add: lengthPrefix_two_digits)

text \<open>
  Claim C7. The data fields of every output end with tag 59 holding the first 25 characters
  of the merchant name, tag 60 holding the first 15 characters of the city and tag 62
  holding the sub-field 01 with the first 25 characters of the transaction id. A name of 30
  characters gives the field \<open>5925\<close> followed by its first 25 characters; a city of 15
  characters or more gives \<open>6015\<close>, a transaction id of 25 or more gives \<open>62290125\<close>.
  The encoder returns a string for every payload: it has no error path.
\<close>

theorem capacity_truncation:
  "suffix (emit (field (lit ''59'') (take 25 (merchantName p)))
           @ emit (field (lit ''60'') (take 15 (merchantCity p)))
           @ emit (field (lit ''62'') (emit (field (lit ''01'') (take 25 (transactionId p)))))
           @ lit ''6304'')
     (take (length (generateKHQRString p) - 4) (generateKHQRString p))
   \<and> (length (merchantName p) = 30 \<longrightarrow>
        emit (field (lit ''59'') (take 25 (merchantName p)))
        = lit ''5925'' @ take 25 (merchantName p))
   \<and> (15 \<le> length (merchantCity p) \<longrightarrow>
        emit (field (lit ''60'') (take 15 (merchantCity p)))
        = lit ''6015'' @ take 15 (merchantCity p))
   \<and> (25 \<le> length (transactionId p) \<longrightarrow>
        emit (field (lit ''62'') (emit (field (lit ''01'') (take 25 (transactionId p)))))
        = lit ''62290125'' @ take 25 (transactionId p))"
proof -
  obtain pre where "generateKHQRString p =
      (pre @ emit (field (lit ''59'') (take 25 (merchantName p)))
           @ emit (field (lit ''60'') (take 15 (merchantCity p)))
           @ emit (field (lit ''62'') (emit (field (lit ''01'') (take 25 (transactionId p)))))
           @ lit ''6304'')
      @ calculateCRC16 (pre @ emit (field (lit ''59'') (take 25 (merchantName p)))
           @ emit (field (lit ''60'') (take 15 (merchantCity p)))
           @ emit (field (lit ''62'') (emit (field (lit ''01'') (take 25 (transactionId p)))))
           @ lit ''6304'')"
    unfolding generateKHQRString_text Let_def
    by (metis append.assoc)
  then have a: "suffix (emit (field (lit ''59'') (take 25 (merchantName p)))
           @ emit (field (lit ''60'') (take 15 (merchantCity p)))
           @ emit (field (lit ''62'') (emit (field (lit ''01'') (take 25 (transactionId p)))))
           @ lit ''6304'')
     (take (length (generateKHQRString p) - 4) (generateKHQRString p))"
    by (simp add: length_calculateCRC16 suffix_def)
  have b: "emit (field (lit ''59'') (take 25 (merchantName p)))
        = lit ''5925'' @ take 25 (merchantName p)" if "length (merchantName p) = 30"
    using that by (simp add: emit_field lengthPrefix_of_length[where n=25] digitChar_def lit_def)
  have c: "emit (field (lit ''60'') (take 15 (merchantCity p)))
        = lit ''6015'' @ take 15 (merchantCity p)" if "15 \<le> length (merchantCity p)"
    using that by (simp add: emit_field lengthPrefix_of_length[where n=15] digitChar_def lit_def)
  have d: "emit (field (lit ''62'') (emit (field (lit ''01'') (take 25 (transactionId p)))))
        = lit ''62290125'' @ take 25 (transactionId p)" if "25 \<le> length (transactionId p)"
    using that by (simp add: emit_field lengthPrefix_of_length[where n=25]
        lengthPrefix_of_length[where n=29] digitChar_def lit_def)
  from a b c d show ?thesis by blast
qed

text \<open>The payload with the long name, city and transaction id.\<close>

theorem capacity_truncation_witness:
  "length (merchantName long_fields_payload) = 30
   \<and> 15 \<le> length (merchantCity long_fields_payload)
   \<and> 25 \<le> length (transactionId long_fields_payload)
   \<and> suffix (lit ''5925ABCDEFGHIJKLMNOPQRSTUVWXY6015Phnom Penh Muni62290125INVOICE-2024-0123456789-A6304'')
        (take (length (generateKHQRString long_fields_payload) - 4)
           (generateKHQRString long_fields_payload))"
proof -
  have h: "length (merchantName long_fields_payload) = 30"
    "15 \<le> length (merchantCity long_fields_payload)"
    "25 \<le> length (transactionId long_fields_payload)"
    by (simp_all add: long_fields_payload_def sample_payload_def lit_def)
  have v: "take 25 (merchantName long_fields_payload) = lit ''ABCDEFGHIJKLMNOPQRSTUVWXY''"
    "take 15 (merchantCity long_fields_payload) = lit ''Phnom Penh Muni''"
    "take 25 (transactionId long_fields_payload) = lit ''INVOICE-2024-0123456789-A''"
    by (simp_all add: long_fields_payload_def sample_payload_def lit_def)
  have "lit ''5925ABCDEFGHIJKLMNOPQRSTUVWXY6015Phnom Penh Muni62290125INVOICE-2024-0123456789-A6304''
      = (lit ''5925'' @ lit ''ABCDEFGHIJKLMNOPQRSTUVWXY'') @ (lit ''6015'' @ lit ''Phnom Penh Muni'')
        @ (lit ''62290125'' @ lit ''INVOICE-2024-0123456789-A'') @ lit ''6304''"
    by (simp add: lit_def)
  with capacity_truncation[of long_fields_payload] h v show ?thesis
    by auto
qed

section \<open>The request handler\<close>

subsection \<open>Well-typed requests reach the encoder\<close>

text \<open>
  On a payload whose merchant id, name and city are strings, the encoder as the handler
  calls it is \<open>generateKHQRString\<close>: no method it calls is missing, and the comparison
  \<open>payload.currency === "USD"\<close> is the comparison of strings.
\<close>

lemma untyped_typed:
  assumes "(currency p = lit ''USD'') = (cur = JString (lit ''USD''))"
  shows "generateKHQRString_untyped rt (JString (merchantId p)) (JString (merchantName p))
           (JString (merchantCity p)) cur (amount p) (transactionId p)
         = Inr (generateKHQRString p)"
  by (simp only: generateKHQRString_untyped_def generateKHQRString_def merchantAcctOf_def
      substringMethod_def Let_def jsvalue.case andThen.simps assms)

lemma stringOrFalsy_orElse:
  "stringOrFalsy v \<Longrightarrow> s \<noteq> [] \<Longrightarrow> orElse v (JString s) = JString (textOf (orElse v (JString s)))"
  by (cases v) (auto simp add: orElse_def)

lemma lit_USD_nonempty: "lit ''USD'' \<noteq> []"
  by (simp add: lit_def)

lemma textOf_USD: "(textOf v = lit ''USD'') = (v = JString (lit ''USD''))"
  using lit_USD_nonempty by (cases v) auto

lemma default_nonempty:
  "lit ''merchant@bakong'' \<noteq> []" "lit ''GameHost'' \<noteq> []" "lit ''Phnom Penh'' \<noteq> []"
  by (simp_all add: lit_def)

lemma finalAmountOf_number:
  "finalAmountOf rt cfg (JNumber x) cur
   = Inr (JNumber (if cfg_currency cfg = JString (lit ''KHR'') \<and> cur = JString (lit ''USD'')
            then mathRound rt (multiply rt x USD_TO_KHR_RATE) else x))"
  by (simp add: finalAmountOf_def toNumberOf_def)

text \<open>
  A request whose amount is a truthy number and whose order id is a non-empty string, under
  a configuration whose merchant fields are strings or absent, raises nothing: the handler
  returns the encoding of the payload of lines 53 to 63.
\<close>

lemma serve_well_typed:
  assumes "\<not> falsyNumber x" and "oid \<noteq> []" and "merchantConfigured cfg"
  shows "serve_qrString rt cfg (JNumber x) cur (JString oid) desc
         = Inr (generateKHQRString (khqrPayload rt cfg x cur oid desc))"
proof -
  define p where "p = khqrPayload rt cfg x cur oid desc"
  from assms(3) have m:
    "orElse (cfg_merchantId cfg) (JString (lit ''merchant@bakong'')) = JString (merchantId p)"
    "orElse (cfg_merchantName cfg) (JString (lit ''GameHost'')) = JString (merchantName p)"
    "orElse (cfg_merchantCity cfg) (JString (lit ''Phnom Penh'')) = JString (merchantCity p)"
    unfolding p_def merchantConfigured_def khqrPayload_def Let_def
    using stringOrFalsy_orElse[OF _ default_nonempty(1)]
      stringOrFalsy_orElse[OF _ default_nonempty(2)]
      stringOrFalsy_orElse[OF _ default_nonempty(3)]
    by simp_all
  have amt: "toFixedMethod rt (JNumber (if cfg_currency cfg = JString (lit ''KHR'') \<and> cur = JString (lit ''USD'')
            then mathRound rt (multiply rt x USD_TO_KHR_RATE) else x))
            (if cfg_currency cfg = JString (lit ''KHR'') then 0 else 2) = Inr (amount p)"
    unfolding p_def khqrPayload_def Let_def toFixedMethod_def by simp
  have tx: "substringMethod (JString oid) 0 25 = Inr (transactionId p)"
    unfolding p_def khqrPayload_def Let_def substringMethod_def by simp
  have c: "(currency p = lit ''USD'')
     = (orElse (cfg_currency cfg) (orElse cur (orElse (cfg_currency cfg) (JString (lit ''USD''))))
        = JString (lit ''USD''))"
    unfolding p_def khqrPayload_def Let_def by (simp add: textOf_USD)
  have "serve_qrString rt cfg (JNumber x) cur (JString oid) desc
      = generateKHQRString_untyped rt (JString (merchantId p)) (JString (merchantName p))
           (JString (merchantCity p))
           (orElse (cfg_currency cfg) (orElse cur (orElse (cfg_currency cfg) (JString (lit ''USD'')))))
           (amount p) (transactionId p)"
    using assms(1,2)
    by (simp only: serve_qrString_def Let_def finalAmountOf_number amt tx m andThen.simps
        falsy.simps simp_thms if_False)
  also have "\<dots> = Inr (generateKHQRString p)"
    by (rule untyped_typed[OF c])
  finally show ?thesis unfolding p_def .
qed

subsection \<open>The one \<open>Error\<close> of the handler\<close>

text \<open>No built-in and no step of the encoder raises an \<open>Error\<close>: what they raise is a
  \<open>TypeError\<close>.\<close>

lemma orTypeError_no_Error: "orTypeError r \<noteq> Inl (Error m)"
  by (cases r) simp_all

lemma andThen_no_Error:
  assumes "r \<noteq> Inl (Error m)" and "\<And>x. f x \<noteq> Inl (Error m)"
  shows "andThen r f \<noteq> Inl (Error m)"
  using assms by (cases r) auto

lemma toNumberOf_no_Error: "toNumberOf rt v \<noteq> Inl (Error m)"
  by (cases v) (simp_all add: toNumberOf_def orTypeError_no_Error)

lemma appended_no_Error: "appended rt v \<noteq> Inl (Error m)"
  by (cases v) (simp_all add: appended_def orTypeError_no_Error)

lemma toStringMethod_no_Error: "toStringMethod rt v \<noteq> Inl (Error m)"
  by (cases v) (simp_all add: toStringMethod_def orTypeError_no_Error)

lemma toFixedMethod_no_Error: "toFixedMethod rt v d \<noteq> Inl (Error m)"
  by (cases v) (simp_all add: toFixedMethod_def)

lemma substringMethod_no_Error: "substringMethod v a b \<noteq> Inl (Error m)"
  by (cases v) (simp_all add: substringMethod_def)

lemma merchantAcctOf_no_Error: "merchantAcctOf rt v \<noteq> Inl (Error m)"
proof (cases v)
  case (JArray xs)
  then show ?thesis
    by (simp add: merchantAcctOf_def andThen_no_Error appended_no_Error)
next
  case (JObject kvs)
  then show ?thesis
    by (simp add: merchantAcctOf_def andThen_no_Error appended_no_Error toStringMethod_no_Error
        split: option.split)
qed (simp_all add: merchantAcctOf_def)

lemma generateKHQRString_untyped_no_Error:
  "generateKHQRString_untyped rt a b c cur amt tx \<noteq> Inl (Error m)"
  unfolding generateKHQRString_untyped_def
  by (intro andThen_no_Error merchantAcctOf_no_Error substringMethod_no_Error) simp

lemma finalAmountOf_no_Error: "finalAmountOf rt cfg amt cur \<noteq> Inl (Error m)"
  by (simp add: finalAmountOf_def andThen_no_Error toNumberOf_no_Error)

lemma serve_Error_iff:
  "serve_qrString rt cfg amt cur ord desc = Inl (Error m) \<longleftrightarrow>
     m = ''Missing required fields: amount, orderId'' \<and> (falsy amt \<or> falsy ord)"
proof (cases "falsy amt \<or> falsy ord")
  case True
  then show ?thesis by (auto simp add: serve_qrString_def)
next
  case False
  have "serve_qrString rt cfg amt cur ord desc \<noteq> Inl (Error m)"
    using False unfolding serve_qrString_def Let_def
    by (simp only: if_False)
      (intro andThen_no_Error finalAmountOf_no_Error toFixedMethod_no_Error
        substringMethod_no_Error generateKHQRString_untyped_no_Error)
  with False show ?thesis by simp
qed

lemma serve_body_Error_iff:
  "serve_body rt cfg body = Inl (Error m) \<longleftrightarrow>
     m = ''Missing required fields: amount, orderId'' \<and> body \<noteq> JUndefined \<and> body \<noteq> JNull
     \<and> (falsy (propertyOf body (lit ''amount'')) \<or> falsy (propertyOf body (lit ''orderId'')))"
  by (simp add: serve_body_def serve_Error_iff)

subsection \<open>Values of the wrong type\<close>

text \<open>
  The handler checks that the amount and the order id are truthy, not what they are. An
  order id that is not a string has no \<open>substring\<close>, an amount that is not a number has
  no \<open>toFixed\<close> (the product \<open>amount * USD_TO_KHR_RATE\<close> is a number whatever the
  amount is), and a configured merchant id that is a number has no \<open>length\<close> to call
  \<open>toString\<close> on.
\<close>

lemma not_Error_TypeError: "(\<And>m. r \<noteq> Inl (Error m)) \<Longrightarrow> r = Inl e \<Longrightarrow> r = Inl TypeError"
  by (cases e) auto

lemma substringMethod_not_string: "(\<And>s. v \<noteq> JString s) \<Longrightarrow> substringMethod v a b = Inl TypeError"
  by (cases v) (auto simp add: substringMethod_def)

lemma toFixedMethod_not_number: "(\<And>x. v \<noteq> JNumber x) \<Longrightarrow> toFixedMethod rt v d = Inl TypeError"
  by (cases v) (auto simp add: toFixedMethod_def)

lemma serve_order_not_string:
  assumes "\<not> falsy amt" and "\<not> falsy ord" and "\<And>s. ord \<noteq> JString s"
  shows "serve_qrString rt cfg amt cur ord desc = Inl TypeError"
proof -
  have "\<exists>e. serve_qrString rt cfg amt cur ord desc = Inl e"
    using assms(1,2)
    by (cases "finalAmountOf rt cfg amt cur";
        cases "toFixedMethod rt (projr (finalAmountOf rt cfg amt cur))
                 (if cfg_currency cfg = JString (lit ''KHR'') then 0 else 2)")
       (simp_all add: serve_qrString_def Let_def substringMethod_not_string[OF assms(3)])
  then obtain e where e: "serve_qrString rt cfg amt cur ord desc = Inl e" ..
  have "\<And>m. serve_qrString rt cfg amt cur ord desc \<noteq> Inl (Error m)"
    using assms(1,2) by (simp add: serve_Error_iff)
  from not_Error_TypeError[OF this e] show ?thesis .
qed

lemma serve_amount_not_number:
  assumes "\<not> falsy amt" and "\<not> falsy ord" and "\<And>x. amt \<noteq> JNumber x"
    and "\<not> (cfg_currency cfg = JString (lit ''KHR'') \<and> cur = JString (lit ''USD''))"
  shows "serve_qrString rt cfg amt cur ord desc = Inl TypeError"
proof -
  have "finalAmountOf rt cfg amt cur = Inr amt"
    using assms(4) by (auto simp add: finalAmountOf_def)
  then show ?thesis
    using assms(1,2)
    by (simp add: serve_qrString_def Let_def toFixedMethod_not_number[OF assms(3)])
qed

lemma serve_merchantId_number:
  assumes "\<not> falsyNumber x" and "oid \<noteq> []"
    and "cfg_merchantId cfg = JNumber y" and "\<not> falsyNumber y"
  shows "serve_qrString rt cfg (JNumber x) cur (JString oid) desc = Inl TypeError"
proof -
  from assms(3,4)
  have "merchantAcctOf rt (orElse (cfg_merchantId cfg) (JString (lit ''merchant@bakong'')))
      = Inl TypeError"
    by (simp add: orElse_def merchantAcctOf_def)
  then show ?thesis
    using assms(1,2)
    by (simp add: serve_qrString_def Let_def finalAmountOf_number toFixedMethod_def
        substringMethod_def generateKHQRString_untyped_def)
qed

subsection \<open>Concrete requests\<close>


lemma exactToFixed_neg: "exactToFixed (Finite (- 5)) 2 = lit ''-5.00''"
  by (simp add: fixedDigits_def digitsOf_10_numeral digitsOf_10_small padStart_def digitChar_def lit_def)


lemma output_negative:
  "generateKHQRString (sample_payload \<lparr> amount := lit ''-5.00'' \<rparr>) =
     lit ''00020101021229290006bakong0115merchant@bakong5204541153038405405-5.005802KH5908GameHost6010Phnom Penh62120108ORDER1236304D8D2''"
  apply (simp only: sample_payload_def generateKHQRString_def Let_def)
  apply (simp add: string_eval lit_def)
  apply (simp add: crc_eval lit_def)
  done

lemma output_infinite:
  "generateKHQRString (sample_payload \<lparr> amount := lit ''Infinity'' \<rparr>) =
     lit ''00020101021229290006bakong0115merchant@bakong5204541153038405408Infinity5802KH5908GameHost6010Phnom Penh62120108ORDER1236304850A''"
  apply (simp only: sample_payload_def generateKHQRString_def Let_def)
  apply (simp add: string_eval lit_def)
  apply (simp add: crc_eval lit_def)
  done

lemma order_id_nonempty: "lit ''ORDER123'' \<noteq> []"
  by (simp add: lit_def)

lemma merchantConfigured_no_config: "merchantConfigured no_config"
  by (simp add: merchantConfigured_def no_config_def)


lemmas payload_eval =
  khqrPayload_def no_config_def currency_config_def exact_runtime_def sample_payload_def
  Let_def orElse_def substring_def


lemma payload_negative:
  "khqrPayload exact_runtime no_config (Finite (- 5)) (JString (lit ''USD'')) (lit ''ORDER123'')
     JUndefined
   = sample_payload \<lparr> amount := lit ''-5.00'' \<rparr>"
  by (simp add: payload_eval exactToFixed_neg lit_def del: exactToFixed.simps)

lemma payload_infinite:
  "khqrPayload exact_runtime no_config PosInfinity (JString (lit ''USD'')) (lit ''ORDER123'')
     JUndefined
   = sample_payload \<lparr> amount := lit ''Infinity'' \<rparr>"
  by (simp add: payload_eval lit_def)

subsection \<open>The currency is not validated\<close>





subsection \<open>The amount is checked for presence only\<close>

text \<open>
  The requests with the amounts \<open>-5\<close> and \<open>Infinity\<close>: the handler raises nothing and
  writes \<open>-5.00\<close> and \<open>Infinity\<close> into tag 54.
\<close>

theorem unchecked_amount_counterexample:
  "serve_qrString exact_runtime no_config (JNumber (Finite (- 5))) (JString (lit ''USD''))
     (JString (lit ''ORDER123'')) JUndefined
   = Inr (lit ''00020101021229290006bakong0115merchant@bakong5204541153038405405-5.005802KH5908GameHost6010Phnom Penh62120108ORDER1236304D8D2'')
   \<and> serve_qrString exact_runtime no_config (JNumber PosInfinity) (JString (lit ''USD''))
     (JString (lit ''ORDER123'')) JUndefined
   = Inr (lit ''00020101021229290006bakong0115merchant@bakong5204541153038405408Infinity5802KH5908GameHost6010Phnom Penh62120108ORDER1236304850A'')"
  by (simp add: serve_well_typed order_id_nonempty merchantConfigured_no_config
      payload_negative payload_infinite output_negative output_infinite)

text \<open>
  Claim C6, as amended. The encode operation raises the handler's own error,
  \<open>Missing required fields: amount, orderId\<close>, exactly when the amount or the order id is
  falsy: absent, \<open>null\<close>, \<open>false\<close>, zero, NaN or the empty string (and the request body
  is not \<open>null\<close>, which raises a \<open>TypeError\<close>). It checks neither the sign nor the
  finiteness of the amount: negative and infinite amounts are truthy, and for every amount
  that is a truthy number, every order id that is a non-empty string and every configuration
  whose merchant id, name and city are strings or absent, it returns the encoded string. A
  truthy order id that is not a string raises a \<open>TypeError\<close>, and so does a truthy amount
  that is not a number, unless the conversion to riel applies.
\<close>

theorem amount_check:
  "(serve_body rt cfg body = Inl (Error m) \<longleftrightarrow>
      m = ''Missing required fields: amount, orderId'' \<and> body \<noteq> JUndefined \<and> body \<noteq> JNull
      \<and> (falsy (propertyOf body (lit ''amount'')) \<or> falsy (propertyOf body (lit ''orderId''))))
   \<and> (serve_qrString rt cfg amt cur ord desc = Inl (Error m) \<longleftrightarrow>
      m = ''Missing required fields: amount, orderId'' \<and> (falsy amt \<or> falsy ord))
   \<and> (q < 0 \<longrightarrow> \<not> falsyNumber (Finite q))
   \<and> \<not> falsyNumber PosInfinity \<and> \<not> falsyNumber NegInfinity
   \<and> (\<not> falsyNumber x \<longrightarrow> oid \<noteq> [] \<longrightarrow> merchantConfigured cfg \<longrightarrow>
        serve_qrString rt cfg (JNumber x) cur (JString oid) desc
        = Inr (generateKHQRString (khqrPayload rt cfg x cur oid desc)))
   \<and> (\<not> falsy amt \<longrightarrow> \<not> falsy ord \<longrightarrow> (\<forall>s. ord \<noteq> JString s) \<longrightarrow>
        serve_qrString rt cfg amt cur ord desc = Inl TypeError)
   \<and> (\<not> falsy amt \<longrightarrow> \<not> falsy ord \<longrightarrow> (\<forall>y. amt \<noteq> JNumber y) \<longrightarrow>
        \<not> (cfg_currency cfg = JString (lit ''KHR'') \<and> cur = JString (lit ''USD'')) \<longrightarrow>
        serve_qrString rt cfg amt cur ord desc = Inl TypeError)"
  using serve_body_Error_iff[of rt cfg body m]
    serve_Error_iff[of rt cfg amt cur ord desc m]
    serve_well_typed[of x oid cfg rt cur desc]
    serve_order_not_string[of amt ord rt cfg cur desc]
    serve_amount_not_number[of amt ord cfg cur rt desc]
  by simp

text \<open>The amount \<open>-5\<close> is encoded, the amount \<open>0\<close> and a body without an amount are
  rejected as missing, the amount \<open>"10"\<close> and the order id \<open>123\<close> raise a \<open>TypeError\<close>.\<close>

theorem amount_check_witness:
  "(- 5 :: real) < 0 \<and> lit ''ORDER123'' \<noteq> [] \<and> merchantConfigured no_config
   \<and> serve_qrString exact_runtime no_config (JNumber (Finite (- 5))) (JString (lit ''USD''))
        (JString (lit ''ORDER123'')) JUndefined
      = Inr (generateKHQRString (sample_payload \<lparr> amount := lit ''-5.00'' \<rparr>))
   \<and> serve_qrString exact_runtime no_config (JNumber (Finite 0)) (JString (lit ''USD''))
        (JString (lit ''ORDER123'')) JUndefined
      = Inl (Error ''Missing required fields: amount, orderId'')
   \<and> serve_body exact_runtime no_config (JObject [(lit ''orderId'', JString (lit ''ORDER123''))])
      = Inl (Error ''Missing required fields: amount, orderId'')
   \<and> serve_qrString exact_runtime no_config (JString (lit ''10'')) (JString (lit ''USD''))
        (JString (lit ''ORDER123'')) JUndefined
      = Inl TypeError
   \<and> serve_qrString exact_runtime no_config (JNumber (Finite 10)) (JString (lit ''USD''))
        (JNumber (Finite 123)) JUndefined
      = Inl TypeError"
proof -
  note neg = amount_check[of exact_runtime no_config
      "JObject [(lit ''orderId'', JString (lit ''ORDER123''))]"
      "''Missing required fields: amount, orderId''"
      "JNumber (Finite 0)" "JString (lit ''USD'')"
      "JString (lit ''ORDER123'')" JUndefined
      "- 5" "Finite (- 5)" "lit ''ORDER123''"]
  note str = amount_check[of exact_runtime no_config JNull "[]"
      "JString (lit ''10'')" "JString (lit ''USD'')"
      "JString (lit ''ORDER123'')" JUndefined 0 NaN "[]"]
  note ord = amount_check[of exact_runtime no_config JNull "[]"
      "JNumber (Finite 10)" "JString (lit ''USD'')"
      "JNumber (Finite 123)" JUndefined 0 NaN "[]"]
  have c: "cfg_currency no_config \<noteq> JString (lit ''KHR'')"
    by (simp add: no_config_def)
  have t: "lit ''10'' \<noteq> []" by (simp add: lit_def)
  have p: "lit ''amount'' \<noteq> lit ''orderId''"
    by (simp add: lit_def)
  from neg have a: "serve_qrString exact_runtime no_config (JNumber (Finite (- 5)))
        (JString (lit ''USD'')) (JString (lit ''ORDER123'')) JUndefined
      = Inr (generateKHQRString (sample_payload \<lparr> amount := lit ''-5.00'' \<rparr>))"
    and b: "serve_qrString exact_runtime no_config (JNumber (Finite 0)) (JString (lit ''USD''))
        (JString (lit ''ORDER123'')) JUndefined
      = Inl (Error ''Missing required fields: amount, orderId'')"
    and e: "serve_body exact_runtime no_config
        (JObject [(lit ''orderId'', JString (lit ''ORDER123''))])
      = Inl (Error ''Missing required fields: amount, orderId'')"
    using order_id_nonempty merchantConfigured_no_config
    by (simp_all add: payload_negative p)
  from str have s: "serve_qrString exact_runtime no_config (JString (lit ''10''))
        (JString (lit ''USD'')) (JString (lit ''ORDER123'')) JUndefined = Inl TypeError"
    using order_id_nonempty c t by simp
  from ord have d: "serve_qrString exact_runtime no_config (JNumber (Finite 10))
        (JString (lit ''USD'')) (JNumber (Finite 123)) JUndefined = Inl TypeError"
    by simp
  from a b e s d order_id_nonempty merchantConfigured_no_config show ?thesis by simp
qed

end
